theory Spec2Isabelle
  imports Complex_Main "HOL-Library.Sublist" "HOL-Library.Char_ord" "HOL-Library.List_Lexorder"
begin

section \<open>Go values\<close>

text \<open>
  A Go \<^verbatim>\<open>string\<close> is a sequence of bytes, and \<^verbatim>\<open>==\<close>, \<^verbatim>\<open><\<close>, ... on strings compare
  bytewise: \<^typ>\<open>string\<close> with the lexicographic order on \<^typ>\<open>char\<close> codes.

  A \<^verbatim>\<open>float64\<close> is a finite value, an infinity or a NaN. Finite values are kept as the
  real number they denote (the two zeros compare equal in Go, so one \<open>Finite 0\<close> stands for
  both); comparisons follow IEEE 754: every ordered comparison with a NaN is false.
\<close>

datatype float64 = Finite real | PosInf | NegInf | NaN

fun f64_eq :: "float64 \<Rightarrow> float64 \<Rightarrow> bool" where
  "f64_eq (Finite x) (Finite y) = (x = y)"
| "f64_eq PosInf PosInf = True"
| "f64_eq NegInf NegInf = True"
| "f64_eq _ _ = False"

fun f64_lt :: "float64 \<Rightarrow> float64 \<Rightarrow> bool" where
  "f64_lt (Finite x) (Finite y) = (x < y)"
| "f64_lt (Finite x) PosInf = True"
| "f64_lt NegInf (Finite y) = True"
| "f64_lt NegInf PosInf = True"
| "f64_lt _ _ = False"

definition f64_le :: "float64 \<Rightarrow> float64 \<Rightarrow> bool" where
  "f64_le a b = (f64_lt a b \<or> f64_eq a b)"

text \<open>
  The dynamic values of a \<^verbatim>\<open>map[string]interface{}\<close>: what \<^verbatim>\<open>json.Unmarshal\<close> produces
  (nil, bool, float64, string, slice, map) and the \<^verbatim>\<open>int\<close> that \<^verbatim>\<open>evaluateSimpleCondition\<close>
  also accepts. A nil map reads like an empty one; writing to it panics in Go, and the
  functions below that write a context are called with the map built by
  \<^verbatim>\<open>GetInstanceAndDefinition\<close> or \<^verbatim>\<open>make\<close>.
\<close>

datatype jvalue =
    VNil
  | VBool bool
  | VFloat float64
  | VInt int
  | VString string
  | VSlice "jvalue list"
  | VMap "string \<Rightarrow> jvalue option"

type_synonym ctx = "string \<Rightarrow> jvalue option"

section \<open>The functions of package strings that the engine calls\<close>

text \<open>\<^verbatim>\<open>strings.Index(s, substr)\<close>: the first byte offset at which \<open>substr\<close> occurs.\<close>

fun Index :: "string \<Rightarrow> string \<Rightarrow> nat option" where
  "Index [] sub = (if sub = [] then Some 0 else None)"
| "Index (c # cs) sub =
     (if prefix sub (c # cs) then Some 0 else map_option Suc (Index cs sub))"

definition Contains :: "string \<Rightarrow> string \<Rightarrow> bool" where
  "Contains s sub = (Index s sub \<noteq> None)"

text \<open>
  \<^verbatim>\<open>strings.SplitN(s, sep, 2)\<close> for a non-empty separator (the engine passes one of its six
  operators): the text before and after the first occurrence, or \<open>s\<close> alone.
\<close>

definition SplitN2 :: "string \<Rightarrow> string \<Rightarrow> string list" where
  "SplitN2 s sep =
     (case Index s sep of
        None \<Rightarrow> [s]
      | Some i \<Rightarrow> [take i s, drop (i + length sep) s])"

text \<open>\<^verbatim>\<open>strings.Split(s, sep)\<close> for a one-byte separator: at least one part, \<open>[[]]\<close> for \<open>[]\<close>.\<close>

fun Split :: "string \<Rightarrow> char \<Rightarrow> string list" where
  "Split [] sep = [[]]"
| "Split (c # cs) sep =
     (if c = sep then [] # Split cs sep
      else (case Split cs sep of [] \<Rightarrow> [[c]] | p # ps \<Rightarrow> (c # p) # ps))"

text \<open>
  \<^verbatim>\<open>strings.TrimSpace\<close> removes leading, then trailing white space as \<^verbatim>\<open>unicode.IsSpace\<close>
  defines it, decoding UTF-8. A rune is decoded as a white-space rune exactly when the bytes
  are its (shortest-form) encoding, so trimming removes these byte sequences:
  U+0009..U+000D, U+0020, U+0085, U+00A0, U+1680, U+2000..U+200A, U+2028, U+2029, U+202F,
  U+205F, U+3000.
\<close>

definition spaceEncodings :: "string list" where
  "spaceEncodings =
     [[CHR 0x09], [CHR 0x0A], [CHR 0x0B], [CHR 0x0C], [CHR 0x0D], [CHR 0x20],
      [CHR 0xC2, CHR 0x85], [CHR 0xC2, CHR 0xA0],
      [CHR 0xE1, CHR 0x9A, CHR 0x80],
      [CHR 0xE2, CHR 0x80, CHR 0x80], [CHR 0xE2, CHR 0x80, CHR 0x81],
      [CHR 0xE2, CHR 0x80, CHR 0x82], [CHR 0xE2, CHR 0x80, CHR 0x83],
      [CHR 0xE2, CHR 0x80, CHR 0x84], [CHR 0xE2, CHR 0x80, CHR 0x85],
      [CHR 0xE2, CHR 0x80, CHR 0x86], [CHR 0xE2, CHR 0x80, CHR 0x87],
      [CHR 0xE2, CHR 0x80, CHR 0x88], [CHR 0xE2, CHR 0x80, CHR 0x89],
      [CHR 0xE2, CHR 0x80, CHR 0x8A],
      [CHR 0xE2, CHR 0x80, CHR 0xA8], [CHR 0xE2, CHR 0x80, CHR 0xA9],
      [CHR 0xE2, CHR 0x80, CHR 0xAF],
      [CHR 0xE2, CHR 0x81, CHR 0x9F],
      [CHR 0xE3, CHR 0x80, CHR 0x80]]"

definition leadingSpace :: "string \<Rightarrow> nat" where
  "leadingSpace s =
     (case find (\<lambda>e. prefix e s) spaceEncodings of None \<Rightarrow> 0 | Some e \<Rightarrow> length e)"

definition trailingSpace :: "string \<Rightarrow> nat" where
  "trailingSpace s =
     (case find (\<lambda>e. suffix e s) spaceEncodings of None \<Rightarrow> 0 | Some e \<Rightarrow> length e)"

function TrimLeft :: "string \<Rightarrow> string" where
  "TrimLeft s = (if leadingSpace s = 0 then s else TrimLeft (drop (leadingSpace s) s))"
  by pat_completeness auto

termination TrimLeft
proof (relation "measure length")
  show "wf (measure length)" by simp
next
  fix s :: string
  assume a: "leadingSpace s \<noteq> 0"
  have "s \<noteq> []"
  proof
    assume "s = []"
    then have "leadingSpace s = 0"
      by (simp add: leadingSpace_def spaceEncodings_def)
    with a show False by simp
  qed
  with a show "(drop (leadingSpace s) s, s) \<in> measure length" by simp
qed

declare TrimLeft.simps [simp del]

function TrimRight :: "string \<Rightarrow> string" where
  "TrimRight s =
     (if trailingSpace s = 0 then s else TrimRight (take (length s - trailingSpace s) s))"
  by pat_completeness auto

termination TrimRight
proof (relation "measure length")
  show "wf (measure length)" by simp
next
  fix s :: string
  assume a: "trailingSpace s \<noteq> 0"
  have "s \<noteq> []"
  proof
    assume "s = []"
    then have "trailingSpace s = 0"
      by (simp add: trailingSpace_def spaceEncodings_def)
    with a show False by simp
  qed
  with a show "(take (length s - trailingSpace s) s, s) \<in> measure length" by simp
qed

declare TrimRight.simps [simp del]

definition TrimSpace :: "string \<Rightarrow> string" where
  "TrimSpace s = TrimRight (TrimLeft s)"

section \<open>workflow/types.go\<close>

text \<open>
  The structs of the workflow package. Field names carry the struct as a prefix, since a
  field name is a global function in a HOL record. A pointer field is an \<open>option\<close>.
\<close>

record SignalConfig =
  sig_Emit :: string
  sig_Catch :: string
  sig_Throw :: string

record FormField =
  field_ID :: string
  field_Name :: string
  field_Label :: string
  field_Type :: string
  field_Required :: bool

record ScriptConfig =
  script_Code :: string

record GatewayCondition =
  cond_When :: string
  cond_Next :: string
  cond_Else :: bool
  cond_Signal :: "SignalConfig option"

record EndConfig =
  end_Signal :: "SignalConfig option"
  end_HTML :: string

record TimeoutConfig =
  timeout_Duration :: string
  timeout_Next :: string

record WorkflowNode =
  node_ID :: string
  node_Type :: string
  node_Name :: string
  node_Next :: string
  node_Fields :: "FormField list"
  node_Script :: "ScriptConfig option"
  node_Conditions :: "GatewayCondition list"
  node_End :: "EndConfig option"
  node_Timeout :: "TimeoutConfig option"
  node_Signal :: "SignalConfig option"

record Workflow =
  wf_ID :: string
  wf_Name :: string
  wf_Description :: string
  wf_Nodes :: "WorkflowNode list"

text \<open>
  Times are instants in nanoseconds since the Unix epoch (\<^verbatim>\<open>UnixNano\<close>).
  \<^verbatim>\<open>WorkflowDef\<close> and \<^verbatim>\<open>CurrentNodeDef\<close> are pointers and may be nil.
\<close>

record WorkflowInstance =
  inst_ID :: string
  inst_WorkflowID :: string
  inst_CurrentNode :: string
  inst_CurrentNodeInstanceDBID :: string
  inst_Context :: ctx
  inst_WaitingSignal :: string
  inst_ExpiresAt :: "int option"
  inst_CreatedAt :: int
  inst_UpdatedAt :: int
  inst_WorkflowDef :: "Workflow option"
  inst_CurrentNodeDef :: "WorkflowNode option"

section \<open>Errors\<close>

text \<open>
  One constructor for each place where the code builds an error (or where the Go runtime
  panics), grouped by package; the arguments are the values the message is formatted from.
\<close>

datatype error =
    EmptyCondition
  | UnsupportedConditionFormat string
  | VariableNotFound string
  | TypeMismatch string string
  | UnsupportedVariableType string
  | UnsupportedNumericOperator string
  | UnsupportedStringOperator string
  | NoConditionsDefined string string
  | NoMatchingCondition string string
  | NilPointerDereference

datatype script_error =
    DecodeScriptFailed
  | DecodeConditionFailed
  | ConsoleSetupError
  | ContextValueError string
  | ProcessDataError
  | ScriptRunError
  | ConditionScriptError
  | ConditionNotBoolean

datatype db_error =
    ErrNoRows
  | UniqueConstraintFailed string
  | FailedToSaveNewInstance db_error
  | FailedToSaveInitialNode db_error
  | FailedToUpdateInitialNodeID db_error
  | FailedToSaveNewNode db_error
  | FailedToUpdateInstance db_error

datatype load_error =
    DefinitionNotFound string
  | ErrorGettingInstance string db_error
  | ErrorGettingNodeInstance string string db_error
  | ErrorGettingDefinition string string load_error
  | ErrorUnmarshallingContext string
  | CurrentNodeDefinitionNotFound string string

datatype engine_error =
    DefinitionInvalid string load_error
  | NoStartNode string
  | ErrorSavingNewInstance db_error
  | FailedToLoadForExecution string load_error
  | StartNodeHasNoNext string
  | ErrorProcessingGateway string string error
  | UnsupportedNodeType string string
  | FailedToLoadToAdvance string load_error
  | ErrorSavingAfterAdvance string string db_error
  | FailedToLoadAfterForm string load_error
  | ErrorSavingAfterForm string db_error
  | ScriptConfigurationMissing string
  | ErrorExecutingScript string script_error
  | Panic

section \<open>workflow/gateway.go\<close>

text \<open>
  \<^verbatim>\<open>getNestedValue\<close>: \<open>None\<close> is the result \<^verbatim>\<open>(nil, false)\<close>; a key that is present with a nil
  value gives \<open>Some VNil\<close>.
\<close>

fun getNestedValue_loop :: "ctx \<Rightarrow> string list \<Rightarrow> jvalue option" where
  "getNestedValue_loop current [] = None"
| "getNestedValue_loop current [part] = current part"
| "getNestedValue_loop current (part # rest) =
     (case current part of
        Some (VMap next) \<Rightarrow> getNestedValue_loop next rest
      | _ \<Rightarrow> None)"

definition getNestedValue :: "ctx \<Rightarrow> string \<Rightarrow> jvalue option" where
  "getNestedValue m path = getNestedValue_loop m (Split path (CHR ''.''))"

definition compareNumbers :: "float64 \<Rightarrow> float64 \<Rightarrow> string \<Rightarrow> error + bool" where
  "compareNumbers actual target op =
     (if op = ''>='' then Inr (f64_le target actual)
      else if op = ''<='' then Inr (f64_le actual target)
      else if op = ''=='' then Inr (f64_eq actual target)
      else if op = ''>'' then Inr (f64_lt target actual)
      else if op = ''<'' then Inr (f64_lt actual target)
      else if op = ''!='' then Inr (\<not> f64_eq actual target)
      else Inl (UnsupportedNumericOperator op))"

definition compareStrings :: "string \<Rightarrow> string \<Rightarrow> string \<Rightarrow> error + bool" where
  "compareStrings actual target op =
     (if op = ''=='' then Inr (actual = target)
      else if op = ''!='' then Inr (actual \<noteq> target)
      else if op = ''>'' then Inr (actual > target)
      else if op = ''<'' then Inr (actual < target)
      else if op = ''>='' then Inr (actual \<ge> target)
      else if op = ''<='' then Inr (actual \<le> target)
      else Inl (UnsupportedStringOperator op))"

definition operators :: "string list" where
  "operators = [''>='', ''<='', ''=='', ''!='', ''>'', ''<'']"

text \<open>The loop over \<^verbatim>\<open>operators\<close>: the first one the condition contains, and the split.\<close>

fun scanOperators :: "string \<Rightarrow> string list \<Rightarrow> (string \<times> string list) option" where
  "scanOperators condition [] = None"
| "scanOperators condition (o' # os) =
     (if Contains condition o' then Some (o', SplitN2 condition o')
      else scanOperators condition os)"

text \<open>
  \<^verbatim>\<open>strconv.ParseFloat(s, 64)\<close> and the conversion \<^verbatim>\<open>float64(v)\<close> of an \<^verbatim>\<open>int\<close> belong to Go,
  not to the engine: they are the parameters \<open>ParseFloat\<close> (\<open>None\<close> when it returns an error)
  and \<open>float64_of_int\<close>.
\<close>

definition evaluateSimpleCondition ::
  "(string \<Rightarrow> float64 option) \<Rightarrow> (int \<Rightarrow> float64) \<Rightarrow> string \<Rightarrow> ctx \<Rightarrow> error + bool" where
  "evaluateSimpleCondition ParseFloat float64_of_int condition context =
     (if condition = [] then Inl EmptyCondition
      else case scanOperators condition operators of
        None \<Rightarrow> Inl (UnsupportedConditionFormat condition)
      | Some (op, parts) \<Rightarrow>
         (case parts of
            [part0, part1] \<Rightarrow>
              (let variablePath = TrimSpace part0;
                   targetValueStr = TrimSpace part1
               in case getNestedValue context variablePath of
                    None \<Rightarrow> Inl (VariableNotFound variablePath)
                  | Some actualValue \<Rightarrow>
                     (case actualValue of
                        VFloat v \<Rightarrow>
                          (case ParseFloat targetValueStr of
                             Some targetNum \<Rightarrow> compareNumbers v targetNum op
                           | None \<Rightarrow> Inl (TypeMismatch targetValueStr variablePath))
                      | VInt v \<Rightarrow>
                          (case ParseFloat targetValueStr of
                             Some targetNum \<Rightarrow> compareNumbers (float64_of_int v) targetNum op
                           | None \<Rightarrow> Inl (TypeMismatch targetValueStr variablePath))
                      | VString v \<Rightarrow> compareStrings v targetValueStr op
                      | _ \<Rightarrow> Inl (UnsupportedVariableType variablePath)))
          | _ \<Rightarrow> Inl (UnsupportedConditionFormat condition)))"

text \<open>
  The loop of \<^verbatim>\<open>ResolveGatewayConditions\<close>, returning \<^verbatim>\<open>(nextNodeID, signalToThrow)\<close> as they
  are when the loop ends; both start as the empty string.
\<close>

definition conditionTaken :: "GatewayCondition \<Rightarrow> string \<times> string" where
  "conditionTaken condition =
     (cond_Next condition,
      (case cond_Signal condition of
         Some sg \<Rightarrow> (if sig_Throw sg \<noteq> [] then sig_Throw sg else [])
       | None \<Rightarrow> []))"

fun scanConditions ::
  "(string \<Rightarrow> float64 option) \<Rightarrow> (int \<Rightarrow> float64) \<Rightarrow> ctx \<Rightarrow> GatewayCondition list
     \<Rightarrow> string \<times> string" where
  "scanConditions pf fi context [] = ([], [])"
| "scanConditions pf fi context (condition # rest) =
     (if cond_When condition \<noteq> [] then
        (case evaluateSimpleCondition pf fi (cond_When condition) context of
           Inl evalErr \<Rightarrow> scanConditions pf fi context rest
         | Inr result \<Rightarrow>
             if result then conditionTaken condition
             else scanConditions pf fi context rest)
      else if cond_Else condition then conditionTaken condition
      else scanConditions pf fi context rest)"

definition ResolveGatewayConditions ::
  "(string \<Rightarrow> float64 option) \<Rightarrow> (int \<Rightarrow> float64) \<Rightarrow> WorkflowInstance
     \<Rightarrow> error + (string \<times> string)" where
  "ResolveGatewayConditions pf fi instance =
     (case inst_CurrentNodeDef instance of
        None \<Rightarrow> Inl NilPointerDereference
      | Some nodeDef \<Rightarrow>
          (let conditions = node_Conditions nodeDef in
           if conditions = [] then
             Inl (NoConditionsDefined (inst_CurrentNode instance) (inst_ID instance))
           else
             (case scanConditions pf fi (inst_Context instance) conditions of
                (nextNodeID, signalToThrow) \<Rightarrow>
                  if nextNodeID = [] then
                    Inl (NoMatchingCondition (inst_CurrentNode instance) (inst_ID instance))
                  else Inr (nextNodeID, signalToThrow))))"

section \<open>scripts: the sandbox\<close>

text \<open>
  The goja VM is not part of the engine. One run of it (a fresh VM, the console, the
  context bound to \<^verbatim>\<open>process_data\<close>, \<^verbatim>\<open>RunString\<close>) is a parameter that returns which step
  failed or the resulting value. A goja value is undefined, null, or something else, of
  which the engine only looks at \<^verbatim>\<open>Export()\<close>.
\<close>

datatype goja_value = Undefined | Null | Exported jvalue

datatype vm_outcome =
    ConsoleSetupFailed
  | ContextValueRejected string
  | ProcessDataRejected
  | RunFailed
  | Returned goja_value

text \<open>
  \<^verbatim>\<open>ExecuteScript\<close>: \<open>RunScript\<close> returns the value of \<^verbatim>\<open>process_data\<close> after the run
  (\<open>Undefined\<close> also stands for a Go nil). \<^verbatim>\<open>Export\<close> never yields a \<^verbatim>\<open>goja.Object\<close> by value,
  so the second conversion branch of the source is not reachable.
\<close>

definition ExecuteScript ::
  "(string \<Rightarrow> string option) \<Rightarrow> (string \<Rightarrow> ctx \<Rightarrow> vm_outcome) \<Rightarrow> string \<Rightarrow> ctx \<Rightarrow> script_error + ctx" where
  "ExecuteScript DecodeString RunScript base64Script context =
     (case DecodeString base64Script of
        None \<Rightarrow> Inl DecodeScriptFailed
      | Some decodedScript \<Rightarrow>
          (case RunScript decodedScript context of
             ConsoleSetupFailed \<Rightarrow> Inl ConsoleSetupError
           | ContextValueRejected k \<Rightarrow> Inl (ContextValueError k)
           | ProcessDataRejected \<Rightarrow> Inl ProcessDataError
           | RunFailed \<Rightarrow> Inl ScriptRunError
           | Returned val \<Rightarrow>
               (case val of
                  Undefined \<Rightarrow> Inr context
                | Null \<Rightarrow> Inr context
                | Exported (VMap newContext) \<Rightarrow> Inr newContext
                | Exported _ \<Rightarrow> Inr context)))"

definition EvaluateCondition ::
  "(string \<Rightarrow> string option) \<Rightarrow> (string \<Rightarrow> ctx \<Rightarrow> vm_outcome) \<Rightarrow> string \<Rightarrow> ctx \<Rightarrow> script_error + bool" where
  "EvaluateCondition DecodeString RunString base64Condition context =
     (case DecodeString base64Condition of
        None \<Rightarrow> Inl DecodeConditionFailed
      | Some decodedCondition \<Rightarrow>
          (case RunString decodedCondition context of
             ConsoleSetupFailed \<Rightarrow> Inl ConsoleSetupError
           | ContextValueRejected k \<Rightarrow> Inl (ContextValueError k)
           | ProcessDataRejected \<Rightarrow> Inl ProcessDataError
           | RunFailed \<Rightarrow> Inl ConditionScriptError
           | Returned val \<Rightarrow>
               (case val of
                  Undefined \<Rightarrow> Inr False
                | Null \<Rightarrow> Inr False
                | Exported (VBool result) \<Rightarrow> Inr result
                | Exported _ \<Rightarrow> Inl ConditionNotBoolean)))"

section \<open>Forms\<close>

text \<open>
  \<^verbatim>\<open>MergeFormInputIntoContext\<close> writes into the caller's map; the model returns the map.
  \<open>Sscanf_f val\<close> is \<^verbatim>\<open>fmt.Sscanf(val, "%f", &num)\<close>: the number read, or \<open>None\<close> on error.
\<close>

definition storeField ::
  "(string \<Rightarrow> float64 option) \<Rightarrow> (string \<Rightarrow> string option) \<Rightarrow> ctx \<Rightarrow> FormField \<Rightarrow> ctx" where
  "storeField Sscanf_f input context field =
     (case input (field_Name field) of
        None \<Rightarrow> context
      | Some val \<Rightarrow>
          if field_Type field = ''number'' then
            (case Sscanf_f val of
               Some num \<Rightarrow> context(field_Name field \<mapsto> VFloat num)
             | None \<Rightarrow> context(field_Name field \<mapsto> VString val))
          else if field_Type field \<in> {''text'', ''email'', ''textarea''} then
            context(field_Name field \<mapsto> VString val)
          else context(field_Name field \<mapsto> VString val))"

fun MergeFormInputIntoContext ::
  "(string \<Rightarrow> float64 option) \<Rightarrow> ctx \<Rightarrow> FormField list \<Rightarrow> (string \<Rightarrow> string option) \<Rightarrow> ctx" where
  "MergeFormInputIntoContext Sscanf_f context [] input = context"
| "MergeFormInputIntoContext Sscanf_f context (field # rest) input =
     MergeFormInputIntoContext Sscanf_f (storeField Sscanf_f input context field) rest input"

section \<open>db/sqlite.go: the store\<close>

text \<open>
  A table is the list of its rows in insertion order. A \<^verbatim>\<open>context\<close> column holds the JSON
  text of a mapping; the model keeps what \<^verbatim>\<open>json.Unmarshal\<close> reads from the text: \<open>Some m\<close>
  for a text that denotes the mapping \<open>m\<close> (the empty text counts as the empty mapping, as
  \<^verbatim>\<open>GetInstanceAndDefinition\<close> reads it), \<open>None\<close> for a text it rejects. \<^verbatim>\<open>json.Marshal\<close> of a
  mapping that was read from the store or filled with strings and numbers does not fail and
  is read back as the same mapping, so it is not a separate step of the model.

  A time column holds \<^verbatim>\<open>t.Format(time.RFC3339)\<close>, which keeps whole seconds: the model
  stores the instant that \<^verbatim>\<open>time.Parse\<close> reads back.
\<close>

definition Format :: "int \<Rightarrow> int" where
  "Format t = (t div 1000000000) * 1000000000"

record instance_row =
  wi_id :: string
  wi_workflow_id :: string
  wi_current_node_instance_id :: string
  wi_context :: "ctx option"
  wi_waiting_signal :: string
  wi_expires_at :: "int option"
  wi_created_at :: int
  wi_updated_at :: int

record node_row =
  wn_id :: string
  wn_workflow_instance_id :: string
  wn_node_id :: string
  wn_context :: "ctx option"
  wn_waiting_signal :: string
  wn_expires_at :: "int option"
  wn_created_at :: int
  wn_updated_at :: int

text \<open>
  The four SQL statements that the engine passes to \<^verbatim>\<open>DB.Exec\<close>. No transaction is ever
  opened, so each \<^verbatim>\<open>DB.Exec\<close> is committed on its own.
\<close>

datatype stmt =
    InsertInstance instance_row
  | InsertNode node_row
  | SetCurrentNodeInstance string string
  | UpdateInstance string "ctx option" string "int option" int string

text \<open>Goroutines that the engine starts with \<^verbatim>\<open>go\<close>.\<close>

datatype task =
    GoExecuteNextNode string
  | GoEmitSignal string
  | GoTimeout string TimeoutConfig string string

datatype effect = Executed stmt | Started task

text \<open>
  The state the engine runs in: the two tables, the workflow definitions as
  \<^verbatim>\<open>GetWorkflowDefinition\<close> serves them (its cache, refilled from the workflow directory), the
  statements committed and goroutines started so far, in program order, and the clock:
  the \<open>n\<close>-th call of \<^verbatim>\<open>time.Now()\<close> returns \<open>clock n\<close>.
\<close>

record world =
  workflow_instances :: "instance_row list"
  workflow_instance_nodes :: "node_row list"
  workflowDefinitions :: "string \<Rightarrow> Workflow option"
  history :: "effect list"
  clock :: "nat \<Rightarrow> int"
  ticks :: nat

definition time_Now :: "world \<Rightarrow> int \<times> world" where
  "time_Now w = (clock w (ticks w), w\<lparr>ticks := Suc (ticks w)\<rparr>)"

definition go :: "task \<Rightarrow> world \<Rightarrow> world" where
  "go t w = w\<lparr>history := history w @ [Started t]\<rparr>"

text \<open>
  \<^verbatim>\<open>DB.Exec\<close> of one statement. Both tables have \<^verbatim>\<open>id TEXT PRIMARY KEY\<close>, so an insert of
  an id that is present fails; foreign keys are not enforced (SQLite's default), and an
  \<^verbatim>\<open>UPDATE\<close> that matches no row succeeds.
\<close>

fun Exec :: "stmt \<Rightarrow> world \<Rightarrow> db_error + world" where
  "Exec (InsertInstance r) w =
     (if wi_id r \<in> set (map wi_id (workflow_instances w))
      then Inl (UniqueConstraintFailed (wi_id r))
      else Inr (w\<lparr>workflow_instances := workflow_instances w @ [r],
                  history := history w @ [Executed (InsertInstance r)]\<rparr>))"
| "Exec (InsertNode r) w =
     (if wn_id r \<in> set (map wn_id (workflow_instance_nodes w))
      then Inl (UniqueConstraintFailed (wn_id r))
      else Inr (w\<lparr>workflow_instance_nodes := workflow_instance_nodes w @ [r],
                  history := history w @ [Executed (InsertNode r)]\<rparr>))"
| "Exec (SetCurrentNodeInstance nodeInstanceID instanceID) w =
     Inr (w\<lparr>workflow_instances :=
                map (\<lambda>r. if wi_id r = instanceID
                         then r\<lparr>wi_current_node_instance_id := nodeInstanceID\<rparr> else r)
                    (workflow_instances w),
              history := history w @ [Executed (SetCurrentNodeInstance nodeInstanceID instanceID)]\<rparr>)"
| "Exec (UpdateInstance newNodeInstanceID newContext waitingSignal expiresAtStr now instanceID) w =
     Inr (w\<lparr>workflow_instances :=
                map (\<lambda>r. if wi_id r = instanceID
                         then r\<lparr>wi_current_node_instance_id := newNodeInstanceID,
                                wi_context := newContext,
                                wi_waiting_signal := waitingSignal,
                                wi_expires_at := expiresAtStr,
                                wi_updated_at := now\<rparr>
                         else r)
                    (workflow_instances w),
              history := history w @
                [Executed (UpdateInstance newNodeInstanceID newContext waitingSignal
                             expiresAtStr now instanceID)]\<rparr>)"

text \<open>\<^verbatim>\<open>fmt.Sprintf("%d", n)\<close>.\<close>

function natToDecimal :: "nat \<Rightarrow> string" where
  "natToDecimal n =
     (if n < 10 then [char_of (48 + n)]
      else natToDecimal (n div 10) @ [char_of (48 + n mod 10)])"
  by pat_completeness auto

termination natToDecimal
  by (relation "measure id") auto

declare natToDecimal.simps [simp del]

definition Sprintf_d :: "int \<Rightarrow> string" where
  "Sprintf_d n = (if n < 0 then CHR ''-'' # natToDecimal (nat (- n)) else natToDecimal (nat n))"

definition SaveNewInstance ::
  "string \<Rightarrow> string \<Rightarrow> string \<Rightarrow> ctx option \<Rightarrow> string \<Rightarrow> int option \<Rightarrow> world
     \<Rightarrow> (db_error + string \<times> string) \<times> world" where
  "SaveNewInstance instanceID workflowID initialNodeID context' waitingSignal expiresAt w =
     (let (now, w0) = time_Now w;
          expiresAtStr = map_option Format expiresAt in
      case Exec (InsertInstance
                   \<lparr>wi_id = instanceID, wi_workflow_id = workflowID,
                    wi_current_node_instance_id = [], wi_context = context',
                    wi_waiting_signal = waitingSignal, wi_expires_at = expiresAtStr,
                    wi_created_at = Format now, wi_updated_at = Format now\<rparr>) w0 of
        Inl err \<Rightarrow> (Inl (FailedToSaveNewInstance err), w0)
      | Inr w1 \<Rightarrow>
         (let initialNodeInstanceID = initialNodeID @ ''-'' @ instanceID in
          case Exec (InsertNode
                       \<lparr>wn_id = initialNodeInstanceID, wn_workflow_instance_id = instanceID,
                        wn_node_id = initialNodeID, wn_context = context',
                        wn_waiting_signal = waitingSignal, wn_expires_at = expiresAtStr,
                        wn_created_at = Format now, wn_updated_at = Format now\<rparr>) w1 of
            Inl err \<Rightarrow> (Inl (FailedToSaveInitialNode err), w1)
          | Inr w2 \<Rightarrow>
             (case Exec (SetCurrentNodeInstance initialNodeInstanceID instanceID) w2 of
                Inl err \<Rightarrow> (Inl (FailedToUpdateInitialNodeID err), w2)
              | Inr w3 \<Rightarrow> (Inr (instanceID, initialNodeInstanceID), w3))))"

definition UpdateInstanceCurrentNodeAndContext ::
  "string \<Rightarrow> string \<Rightarrow> ctx option \<Rightarrow> string \<Rightarrow> int option \<Rightarrow> world
     \<Rightarrow> (db_error + string) \<times> world" where
  "UpdateInstanceCurrentNodeAndContext instanceID newNodeID newContext waitingSignal expiresAt w =
     (let (now, w0) = time_Now w;
          expiresAtStr = map_option Format expiresAt;
          newNodeInstanceID = newNodeID @ ''-'' @ instanceID @ ''-'' @ Sprintf_d now in
      case Exec (InsertNode
                   \<lparr>wn_id = newNodeInstanceID, wn_workflow_instance_id = instanceID,
                    wn_node_id = newNodeID, wn_context = newContext,
                    wn_waiting_signal = waitingSignal, wn_expires_at = expiresAtStr,
                    wn_created_at = Format now, wn_updated_at = Format now\<rparr>) w0 of
        Inl err \<Rightarrow> (Inl (FailedToSaveNewNode err), w0)
      | Inr w1 \<Rightarrow>
         (case Exec (UpdateInstance newNodeInstanceID newContext waitingSignal expiresAtStr
                       (Format now) instanceID) w1 of
            Inl err \<Rightarrow> (Inl (FailedToUpdateInstance err), w1)
          | Inr w2 \<Rightarrow> (Inr newNodeInstanceID, w2)))"

text \<open>\<^verbatim>\<open>QueryRow\<close> and \<^verbatim>\<open>Scan\<close>: the row with the id, or \<^verbatim>\<open>sql.ErrNoRows\<close>.\<close>

definition GetInstance :: "string \<Rightarrow> world \<Rightarrow> db_error + instance_row" where
  "GetInstance instanceID w =
     (case find (\<lambda>r. wi_id r = instanceID) (workflow_instances w) of
        None \<Rightarrow> Inl ErrNoRows
      | Some r \<Rightarrow> Inr r)"

definition GetNodeInstance :: "string \<Rightarrow> world \<Rightarrow> db_error + node_row" where
  "GetNodeInstance nodeInstanceID w =
     (case find (\<lambda>r. wn_id r = nodeInstanceID) (workflow_instance_nodes w) of
        None \<Rightarrow> Inl ErrNoRows
      | Some r \<Rightarrow> Inr r)"

definition GetInstancesWaitingForSignal :: "string \<Rightarrow> world \<Rightarrow> string list" where
  "GetInstancesWaitingForSignal signalName w =
     map wi_id (filter (\<lambda>r. wi_waiting_signal r = signalName) (workflow_instances w))"

section \<open>The engine\<close>

definition GetWorkflowDefinition :: "string \<Rightarrow> world \<Rightarrow> load_error + Workflow" where
  "GetWorkflowDefinition workflowID w =
     (case workflowDefinitions w workflowID of
        None \<Rightarrow> Inl (DefinitionNotFound workflowID)
      | Some wfDef \<Rightarrow> Inr wfDef)"

definition GetNodeByID :: "Workflow \<Rightarrow> string \<Rightarrow> WorkflowNode option" where
  "GetNodeByID wfDef nodeID = find (\<lambda>n. node_ID n = nodeID) (wf_Nodes wfDef)"

definition GetInstanceAndDefinition :: "string \<Rightarrow> world \<Rightarrow> load_error + WorkflowInstance" where
  "GetInstanceAndDefinition instanceID w =
     (case GetInstance instanceID w of
        Inl err \<Rightarrow> Inl (ErrorGettingInstance instanceID err)
      | Inr row \<Rightarrow>
     (case GetNodeInstance (wi_current_node_instance_id row) w of
        Inl err \<Rightarrow>
          Inl (ErrorGettingNodeInstance instanceID (wi_current_node_instance_id row) err)
      | Inr nodeRow \<Rightarrow>
     (case GetWorkflowDefinition (wi_workflow_id row) w of
        Inl err \<Rightarrow> Inl (ErrorGettingDefinition instanceID (wi_workflow_id row) err)
      | Inr wfDef \<Rightarrow>
     (case wi_context row of
        None \<Rightarrow> Inl (ErrorUnmarshallingContext instanceID)
      | Some ctx' \<Rightarrow>
         (let instance =
                \<lparr>inst_ID = wi_id row,
                 inst_WorkflowID = wi_workflow_id row,
                 inst_CurrentNode = wn_node_id nodeRow,
                 inst_CurrentNodeInstanceDBID = wi_current_node_instance_id row,
                 inst_Context = ctx',
                 inst_WaitingSignal = wi_waiting_signal row,
                 inst_ExpiresAt = wi_expires_at row,
                 inst_CreatedAt = wi_created_at row,
                 inst_UpdatedAt = wi_updated_at row,
                 inst_WorkflowDef = Some wfDef,
                 inst_CurrentNodeDef = GetNodeByID wfDef (wn_node_id nodeRow)\<rparr>
          in if inst_CurrentNodeDef instance = None
             then Inl (CurrentNodeDefinitionNotFound (wn_node_id nodeRow) instanceID)
             else Inr instance)))))"

text \<open>
  \<^verbatim>\<open>CreateNewInstance\<close>; \<open>newUUID\<close> is the string that \<^verbatim>\<open>uuid.New().String()\<close> returns.
\<close>

definition CreateNewInstance ::
  "string \<Rightarrow> string \<Rightarrow> world \<Rightarrow> (engine_error + WorkflowInstance) \<times> world" where
  "CreateNewInstance newUUID workflowID w =
     (case GetWorkflowDefinition workflowID w of
        Inl err \<Rightarrow> (Inl (DefinitionInvalid workflowID err), w)
      | Inr wfDef \<Rightarrow>
         (let instanceID = newUUID;
              initialContext = [''instanceID'' \<mapsto> VString instanceID]
          in case GetNodeByID wfDef ''start_node'' of
               None \<Rightarrow> (Inl (NoStartNode workflowID), w)
             | Some startNode \<Rightarrow>
                (let waitingSignal =
                       (case node_Signal startNode of
                          Some sg \<Rightarrow> (if sig_Catch sg \<noteq> [] then sig_Catch sg else [])
                        | None \<Rightarrow> [])
                 in case SaveNewInstance instanceID workflowID (node_ID startNode)
                           (Some initialContext) waitingSignal None w of
                      (Inl err, w1) \<Rightarrow> (Inl (ErrorSavingNewInstance err), w1)
                    | (Inr (savedID, initialNodeInstanceDBID), w1) \<Rightarrow>
                       (let (createdAt, w2) = time_Now w1;
                            (updatedAt, w3) = time_Now w2;
                            instance =
                              \<lparr>inst_ID = instanceID,
                               inst_WorkflowID = workflowID,
                               inst_CurrentNode = node_ID startNode,
                               inst_CurrentNodeInstanceDBID = initialNodeInstanceDBID,
                               inst_Context = initialContext,
                               inst_WaitingSignal = waitingSignal,
                               inst_ExpiresAt = None,
                               inst_CreatedAt = createdAt,
                               inst_UpdatedAt = updatedAt,
                               inst_WorkflowDef = Some wfDef,
                               inst_CurrentNodeDef = Some startNode\<rparr>
                        in (Inr instance,
                            if waitingSignal = [] then go (GoExecuteNextNode instanceID) w3
                            else w3)))))"

text \<open>
  \<^verbatim>\<open>advanceInstance\<close>. The node of \<open>nextNodeID\<close> is looked up without a nil check, and the
  source reads its \<^verbatim>\<open>Type\<close> after the store has been written: a missing node is a panic at
  that point.
\<close>

definition advanceInstance ::
  "string \<Rightarrow> string \<Rightarrow> string option \<Rightarrow> world \<Rightarrow> (engine_error + unit) \<times> world" where
  "advanceInstance instanceID nextNodeID waitingSignal w =
     (case GetInstanceAndDefinition instanceID w of
        Inl err \<Rightarrow> (Inl (FailedToLoadToAdvance instanceID err), w)
      | Inr instance \<Rightarrow>
         (let currentNodeDef =
                (case inst_WorkflowDef instance of
                   None \<Rightarrow> None
                 | Some wfDef \<Rightarrow> GetNodeByID wfDef nextNodeID);
              (updatedAt, w0) = time_Now w;
              signalString = (case waitingSignal of Some sg \<Rightarrow> sg | None \<Rightarrow> [])
          in case UpdateInstanceCurrentNodeAndContext (inst_ID instance) nextNodeID
                    (Some (inst_Context instance)) signalString (inst_ExpiresAt instance) w0 of
               (Inl err, w1) \<Rightarrow>
                 (Inl (ErrorSavingAfterAdvance (inst_ID instance) nextNodeID err), w1)
             | (Inr newNodeInstanceDBID, w1) \<Rightarrow>
                (case currentNodeDef of
                   None \<Rightarrow> (Inl Panic, w1)
                 | Some nodeDef \<Rightarrow>
                     if node_Type nodeDef \<noteq> ''end'' \<and> node_Type nodeDef \<noteq> ''form'' \<and>
                        (waitingSignal = None \<or> waitingSignal = Some [])
                     then (Inr (), go (GoExecuteNextNode instanceID) w1)
                     else (Inr (), w1))))"

definition AdvanceInstanceAfterForm ::
  "string \<Rightarrow> string \<Rightarrow> ctx \<Rightarrow> world \<Rightarrow> (engine_error + unit) \<times> world" where
  "AdvanceInstanceAfterForm instanceID nextNodeID formData w =
     (case GetInstanceAndDefinition instanceID w of
        Inl err \<Rightarrow> (Inl (FailedToLoadAfterForm instanceID err), w)
      | Inr instance \<Rightarrow>
         (case UpdateInstanceCurrentNodeAndContext (inst_ID instance) nextNodeID
                 (Some (inst_Context instance ++ formData)) [] None w of
            (Inl err, w1) \<Rightarrow> (Inl (ErrorSavingAfterForm instanceID err), w1)
          | (Inr newNodeInstanceDBID, w1) \<Rightarrow> (Inr (), go (GoExecuteNextNode instanceID) w1)))"

text \<open>
  \<^verbatim>\<open>executeScriptNode\<close> assigns the script's result to the in-memory instance only;
  \<^verbatim>\<open>advanceInstance\<close> loads the instance again from the store.
\<close>

definition executeScriptNode ::
  "(string \<Rightarrow> string option) \<Rightarrow> (string \<Rightarrow> ctx \<Rightarrow> vm_outcome) \<Rightarrow> WorkflowInstance \<Rightarrow> world
     \<Rightarrow> (engine_error + unit) \<times> world" where
  "executeScriptNode DecodeString RunScript instance w =
     (case inst_CurrentNodeDef instance of
        None \<Rightarrow> (Inl Panic, w)
      | Some nodeDef \<Rightarrow>
         (case node_Script nodeDef of
            None \<Rightarrow> (Inl (ScriptConfigurationMissing (inst_CurrentNode instance)), w)
          | Some scriptConfig \<Rightarrow>
             (case ExecuteScript DecodeString RunScript (script_Code scriptConfig)
                     (inst_Context instance) of
                Inl err \<Rightarrow> (Inl (ErrorExecutingScript (inst_CurrentNode instance) err), w)
              | Inr newContext \<Rightarrow>
                  advanceInstance (inst_ID instance) (node_Next nodeDef) None w)))"

definition executeEndNode :: "WorkflowInstance \<Rightarrow> world \<Rightarrow> (engine_error + unit) \<times> world" where
  "executeEndNode instance w =
     (case inst_CurrentNodeDef instance of
        None \<Rightarrow> (Inl Panic, w)
      | Some nodeDef \<Rightarrow>
         (case node_End nodeDef of
            None \<Rightarrow> (Inr (), w)
          | Some endConfig \<Rightarrow>
             (case end_Signal endConfig of
                None \<Rightarrow> (Inr (), w)
              | Some sg \<Rightarrow>
                  if sig_Emit sg \<noteq> [] then (Inr (), go (GoEmitSignal (sig_Emit sg)) w)
                  else (Inr (), w))))"

text \<open>
  \<^verbatim>\<open>ExecuteNextNode\<close>. \<^verbatim>\<open>time.Now()\<close> is only called when the instance waits for no signal
  and has an expiry. The timeout goroutine and the goroutine that emits a gateway's signal
  are started where the source starts them.
\<close>

definition ExecuteNextNode ::
  "(string \<Rightarrow> float64 option) \<Rightarrow> (int \<Rightarrow> float64) \<Rightarrow> (string \<Rightarrow> string option)
     \<Rightarrow> (string \<Rightarrow> ctx \<Rightarrow> vm_outcome) \<Rightarrow> string \<Rightarrow> world \<Rightarrow> (engine_error + unit) \<times> world" where
  "ExecuteNextNode ParseFloat float64_of_int DecodeString RunScript instanceID w =
     (case GetInstanceAndDefinition instanceID w of
        Inl loadErr \<Rightarrow> (Inl (FailedToLoadForExecution instanceID loadErr), w)
      | Inr instance \<Rightarrow>
         (let (waitingOrExpired, w0) =
                (if inst_WaitingSignal instance \<noteq> [] then (True, w)
                 else case inst_ExpiresAt instance of
                        None \<Rightarrow> (False, w)
                      | Some expiresAt \<Rightarrow>
                          (let (now, w') = time_Now w in (expiresAt < now, w')))
          in if waitingOrExpired then (Inr (), w0)
             else
              (case inst_CurrentNodeDef instance of
                 None \<Rightarrow> (Inl Panic, w0)
               | Some nodeDef \<Rightarrow>
              (let w1 =
                     (case node_Timeout nodeDef of
                        Some timeoutCfg \<Rightarrow>
                          go (GoTimeout instanceID timeoutCfg (inst_CurrentNode instance)
                                (inst_CurrentNodeInstanceDBID instance)) w0
                      | None \<Rightarrow> w0)
               in if node_Type nodeDef = ''start'' then
                    (if node_Next nodeDef \<noteq> []
                     then advanceInstance instanceID (node_Next nodeDef) None w1
                     else (Inl (StartNodeHasNoNext (inst_CurrentNode instance)), w1))
                  else if node_Type nodeDef = ''form'' then (Inr (), w1)
                  else if node_Type nodeDef = ''script'' then
                    executeScriptNode DecodeString RunScript instance w1
                  else if node_Type nodeDef = ''gateway'' then
                    (case ResolveGatewayConditions ParseFloat float64_of_int instance of
                       Inl gatewayErr \<Rightarrow>
                         (Inl (ErrorProcessingGateway (inst_CurrentNode instance)
                                 (inst_ID instance) gatewayErr), w1)
                     | Inr (nextNodeID, signalToThrow) \<Rightarrow>
                         (let w2 = (if signalToThrow \<noteq> []
                                    then go (GoEmitSignal signalToThrow) w1 else w1)
                          in advanceInstance (inst_ID instance) nextNodeID None w2))
                  else if node_Type nodeDef = ''end'' then executeEndNode instance w1
                  else (Inl (UnsupportedNodeType (node_Type nodeDef)
                               (inst_CurrentNode instance)), w1)))))"

text \<open>
  The timeout goroutine, once \<^verbatim>\<open>time.Sleep\<close> has returned: \<open>w\<close> is the state at that
  moment. It reads the instance, compares, and calls \<^verbatim>\<open>advanceInstance\<close>, which reads the
  instance again. \<open>ParseDuration\<close> is \<^verbatim>\<open>time.ParseDuration\<close>; a duration that does not parse
  ends the goroutine before it sleeps.
\<close>

definition timeoutExpired :: "string \<Rightarrow> TimeoutConfig \<Rightarrow> string \<Rightarrow> string \<Rightarrow> world \<Rightarrow> world" where
  "timeoutExpired instID timeoutCfg originalNodeID originalNodeInstanceDBID w =
     (case GetInstanceAndDefinition instID w of
        Inl err \<Rightarrow> w
      | Inr currentInstance \<Rightarrow>
          if inst_CurrentNodeInstanceDBID currentInstance = originalNodeInstanceDBID
          then snd (advanceInstance instID (timeout_Next timeoutCfg) None w)
          else w)"

definition timeoutGoroutine ::
  "(string \<Rightarrow> int option) \<Rightarrow> string \<Rightarrow> TimeoutConfig \<Rightarrow> string \<Rightarrow> string \<Rightarrow> world \<Rightarrow> world" where
  "timeoutGoroutine ParseDuration instID timeoutCfg originalNodeID originalNodeInstanceDBID w =
     (case ParseDuration (timeout_Duration timeoutCfg) of
        None \<Rightarrow> w
      | Some duration \<Rightarrow>
          timeoutExpired instID timeoutCfg originalNodeID originalNodeInstanceDBID w)"

section \<open>Signals\<close>

text \<open>
  The loop of \<^verbatim>\<open>ResumeWorkflowsBySignal\<close>: an instance that fails to load or to save is
  skipped (\<^verbatim>\<open>continue\<close>).
\<close>

fun resumeLoop :: "string \<Rightarrow> string list \<Rightarrow> world \<Rightarrow> world" where
  "resumeLoop signalName [] w = w"
| "resumeLoop signalName (id' # ids) w =
     (case GetInstanceAndDefinition id' w of
        Inl err \<Rightarrow> resumeLoop signalName ids w
      | Inr instance \<Rightarrow>
         (case UpdateInstanceCurrentNodeAndContext (inst_ID instance) (inst_CurrentNode instance)
                 (Some (inst_Context instance)) [] (inst_ExpiresAt instance) w of
            (Inl err, w1) \<Rightarrow> resumeLoop signalName ids w1
          | (Inr newID, w1) \<Rightarrow> resumeLoop signalName ids (go (GoExecuteNextNode id') w1)))"

definition ResumeWorkflowsBySignal :: "string \<Rightarrow> world \<Rightarrow> (engine_error + unit) \<times> world" where
  "ResumeWorkflowsBySignal signalName w =
     (let instanceIDs = GetInstancesWaitingForSignal signalName w
      in if instanceIDs = [] then (Inr (), w)
         else (Inr (), resumeLoop signalName instanceIDs w))"

definition EmitSignal :: "string \<Rightarrow> world \<Rightarrow> (engine_error + unit) \<times> world" where
  "EmitSignal signalName w = ResumeWorkflowsBySignal signalName w"

section \<open>Notions used to state the properties\<close>

subsection \<open>Example instances of the library parameters\<close>

text \<open>
  The examples below need concrete functions for the library parameters. These agree with
  the Go library on the inputs the examples use: \<open>exampleParseFloat\<close> and \<open>exampleSscanf\<close>
  read a string of one to fifteen decimal digits (each such number is a float64) and reject
  the words \<open>admin\<close>, \<open>alice\<close> and \<open>soon\<close>; \<open>exampleDecodeString\<close> decodes three base64 texts;
  \<open>exampleRunString\<close> gives the value of three JavaScript expressions.
\<close>

fun digitsValue :: "string \<Rightarrow> nat \<Rightarrow> nat option" where
  "digitsValue [] acc = Some acc"
| "digitsValue (c # cs) acc =
     (if CHR ''0'' \<le> c \<and> c \<le> CHR ''9''
      then digitsValue cs (10 * acc + (of_char c - 48)) else None)"

definition exampleParseFloat :: "string \<Rightarrow> float64 option" where
  "exampleParseFloat s =
     (if s = [] \<or> 15 < length s then None
      else map_option (\<lambda>n. Finite (real n)) (digitsValue s 0))"

definition exampleFloatOfInt :: "int \<Rightarrow> float64" where
  "exampleFloatOfInt v = Finite (real_of_int v)"

definition exampleDecodeString :: "string \<Rightarrow> string option" where
  "exampleDecodeString s =
     (if s = ''dW5kZWZpbmVk'' then Some ''undefined''
      else if s = ''dHJ1ZQ=='' then Some ''true''
      else if s = ''MSArIDE='' then Some ''1 + 1''
      else None)"

definition exampleRunString :: "string \<Rightarrow> ctx \<Rightarrow> vm_outcome" where
  "exampleRunString src context =
     (if src = ''undefined'' then Returned Undefined
      else if src = ''true'' then Returned (Exported (VBool True))
      else if src = ''1 + 1'' then Returned (Exported (VInt 2))
      else RunFailed)"

subsection \<open>Gateways\<close>

text \<open>The signal a branch throws; the empty string when it throws none.\<close>

definition throwOf :: "GatewayCondition \<Rightarrow> string" where
  "throwOf c = (case cond_Signal c of None \<Rightarrow> [] | Some sg \<Rightarrow> sig_Throw sg)"

text \<open>
  When a branch matches, as the specification words it: its \<open>when\<close> evaluates to true, or
  it has \<open>else: true\<close>; and the result it asks for.
\<close>

definition claimedMatches ::
  "(string \<Rightarrow> float64 option) \<Rightarrow> (int \<Rightarrow> float64) \<Rightarrow> ctx \<Rightarrow> GatewayCondition \<Rightarrow> bool" where
  "claimedMatches pf fi context c =
     (evaluateSimpleCondition pf fi (cond_When c) context = Inr True \<or> cond_Else c)"

definition claimedResolve ::
  "(string \<Rightarrow> float64 option) \<Rightarrow> (int \<Rightarrow> float64) \<Rightarrow> WorkflowInstance \<Rightarrow> GatewayCondition list
     \<Rightarrow> error + (string \<times> string)" where
  "claimedResolve pf fi instance conds =
     (case find (claimedMatches pf fi (inst_Context instance)) conds of
        None \<Rightarrow> Inl (NoMatchingCondition (inst_CurrentNode instance) (inst_ID instance))
      | Some c \<Rightarrow> Inr (cond_Next c, throwOf c))"

text \<open>
  When a branch matches in the code: a branch with a \<open>when\<close> matches by its \<open>when\<close> alone,
  and \<open>else\<close> counts only where \<open>when\<close> is empty.
\<close>

definition branchMatches ::
  "(string \<Rightarrow> float64 option) \<Rightarrow> (int \<Rightarrow> float64) \<Rightarrow> ctx \<Rightarrow> GatewayCondition \<Rightarrow> bool" where
  "branchMatches pf fi context c =
     (if cond_When c \<noteq> [] then evaluateSimpleCondition pf fi (cond_When c) context = Inr True
      else cond_Else c)"

definition gatewayNode :: "GatewayCondition list \<Rightarrow> WorkflowNode" where
  "gatewayNode conds =
     \<lparr>node_ID = ''gateway-1'', node_Type = ''gateway'', node_Name = ''Route'',
      node_Next = [], node_Fields = [], node_Script = None, node_Conditions = conds,
      node_End = None, node_Timeout = None, node_Signal = None\<rparr>"

definition gatewayInstance :: "GatewayCondition list \<Rightarrow> ctx \<Rightarrow> WorkflowInstance" where
  "gatewayInstance conds context =
     \<lparr>inst_ID = ''i-1'', inst_WorkflowID = ''wf-1'', inst_CurrentNode = ''gateway-1'',
      inst_CurrentNodeInstanceDBID = ''gateway-1-i-1-7'', inst_Context = context,
      inst_WaitingSignal = [], inst_ExpiresAt = None, inst_CreatedAt = 0, inst_UpdatedAt = 0,
      inst_WorkflowDef = None, inst_CurrentNodeDef = Some (gatewayNode conds)\<rparr>"

text \<open>
  The branches of \<^verbatim>\<open>check_age_gateway\<close> in the sample workflow, and branches written with
  \<^verbatim>\<open>then\<close> instead of \<^verbatim>\<open>next\<close> as those of its \<^verbatim>\<open>gateway-1\<close> are: the engine reads \<^verbatim>\<open>next\<close>,
  which stays empty.
\<close>

definition ageBranches :: "GatewayCondition list" where
  "ageBranches =
     [\<lparr>cond_When = ''user_age >= 30'', cond_Next = ''adult_path_end'', cond_Else = False,
       cond_Signal = None\<rparr>,
      \<lparr>cond_When = [], cond_Next = ''under_age_end'', cond_Else = True, cond_Signal = None\<rparr>]"

definition thenBranches :: "GatewayCondition list" where
  "thenBranches =
     [\<lparr>cond_When = ''role == admin'', cond_Next = [], cond_Else = False,
       cond_Signal = Some \<lparr>sig_Emit = [], sig_Catch = [], sig_Throw = ''admin:entered''\<rparr>\<rparr>,
      \<lparr>cond_When = [], cond_Next = [], cond_Else = True, cond_Signal = None\<rparr>]"

subsection \<open>Conditions\<close>

text \<open>
  How a condition string is read. \<open>firstOperator condition op\<close>: \<open>op\<close> is the first of
  \<^verbatim>\<open>>=\<close>, \<^verbatim>\<open><=\<close>, \<^verbatim>\<open>==\<close>, \<^verbatim>\<open>!=\<close>, \<^verbatim>\<open>>\<close>, \<^verbatim>\<open><\<close> (in this order) that occurs anywhere in
  \<open>condition\<close>. In \<open>path @ op @ literal\<close> that occurrence of \<open>op\<close> is the leftmost one when
  \<open>op\<close> does not occur in \<open>path @ butlast op\<close>, that is, when no occurrence starts inside
  \<open>path\<close>. \<open>lexCompare\<close> is the comparison of two strings that the operator stands for.
\<close>

definition firstOperator :: "string \<Rightarrow> string \<Rightarrow> bool" where
  "firstOperator condition op =
     (op \<in> set operators \<and> sublist op condition \<and>
      (\<forall>o' \<in> set (takeWhile (\<lambda>x. x \<noteq> op) operators). \<not> sublist o' condition))"

definition lexCompare :: "string \<Rightarrow> string \<Rightarrow> string \<Rightarrow> bool" where
  "lexCompare op s t =
     (if op = ''=='' then s = t
      else if op = ''!='' then s \<noteq> t
      else if op = ''<'' then s < t
      else if op = ''<='' then s \<le> t
      else if op = ''>'' then t < s
      else t \<le> s)"

subsection \<open>Forms\<close>

text \<open>What a declared field stores for a submitted string.\<close>

definition storedValue :: "(string \<Rightarrow> float64 option) \<Rightarrow> FormField \<Rightarrow> string \<Rightarrow> jvalue" where
  "storedValue Sscanf_f field val =
     (if field_Type field = ''number''
      then (case Sscanf_f val of Some num \<Rightarrow> VFloat num | None \<Rightarrow> VString val)
      else VString val)"

definition exampleFields :: "FormField list" where
  "exampleFields =
     [\<lparr>field_ID = [], field_Name = ''age'', field_Label = ''Age'', field_Type = ''number'',
       field_Required = True\<rparr>,
      \<lparr>field_ID = [], field_Name = ''name'', field_Label = [], field_Type = ''text'',
       field_Required = False\<rparr>]"

definition exampleInput :: "string \<Rightarrow> string option" where
  "exampleInput = [''age'' \<mapsto> ''42'', ''name'' \<mapsto> ''alice'', ''extra'' \<mapsto> ''x'']"

subsection \<open>The store\<close>

text \<open>
  What \<^verbatim>\<open>UpdateInstanceCurrentNodeAndContext\<close> writes in state \<open>w\<close>: the id it generates from
  the node, the instance and the clock, the row it inserts, the statement that updates the
  head, and the head row after that statement. \<open>tick w\<close> is the state after one call of
  \<^verbatim>\<open>time.Now()\<close>.
\<close>

definition tick :: "world \<Rightarrow> world" where
  "tick w = w\<lparr>ticks := Suc (ticks w)\<rparr>"

definition newNodeInstanceID :: "string \<Rightarrow> string \<Rightarrow> world \<Rightarrow> string" where
  "newNodeInstanceID newNodeID instanceID w =
     newNodeID @ ''-'' @ instanceID @ ''-'' @ Sprintf_d (clock w (ticks w))"

definition newNodeRow ::
  "string \<Rightarrow> string \<Rightarrow> ctx option \<Rightarrow> string \<Rightarrow> int option \<Rightarrow> world \<Rightarrow> node_row" where
  "newNodeRow instanceID newNodeID newContext waitingSignal expiresAt w =
     \<lparr>wn_id = newNodeInstanceID newNodeID instanceID w,
      wn_workflow_instance_id = instanceID,
      wn_node_id = newNodeID, wn_context = newContext,
      wn_waiting_signal = waitingSignal, wn_expires_at = map_option Format expiresAt,
      wn_created_at = Format (clock w (ticks w)),
      wn_updated_at = Format (clock w (ticks w))\<rparr>"

definition headUpdate ::
  "string \<Rightarrow> string \<Rightarrow> ctx option \<Rightarrow> string \<Rightarrow> int option \<Rightarrow> world \<Rightarrow> stmt" where
  "headUpdate instanceID newNodeID newContext waitingSignal expiresAt w =
     UpdateInstance (newNodeInstanceID newNodeID instanceID w) newContext waitingSignal
       (map_option Format expiresAt) (Format (clock w (ticks w))) instanceID"

definition advancedRow ::
  "string \<Rightarrow> string \<Rightarrow> ctx option \<Rightarrow> string \<Rightarrow> int option \<Rightarrow> world
     \<Rightarrow> instance_row \<Rightarrow> instance_row" where
  "advancedRow instanceID newNodeID newContext waitingSignal expiresAt w r =
     (if wi_id r = instanceID
      then r\<lparr>wi_current_node_instance_id := newNodeInstanceID newNodeID instanceID w,
             wi_context := newContext,
             wi_waiting_signal := waitingSignal,
             wi_expires_at := map_option Format expiresAt,
             wi_updated_at := Format (clock w (ticks w))\<rparr>
      else r)"

text \<open>The two rows that \<^verbatim>\<open>SaveNewInstance\<close> inserts in state \<open>w\<close>.\<close>

definition initialInstanceRow ::
  "string \<Rightarrow> string \<Rightarrow> ctx option \<Rightarrow> string \<Rightarrow> int option \<Rightarrow> world \<Rightarrow> instance_row" where
  "initialInstanceRow instanceID workflowID context' waitingSignal expiresAt w =
     \<lparr>wi_id = instanceID, wi_workflow_id = workflowID,
      wi_current_node_instance_id = [], wi_context = context',
      wi_waiting_signal = waitingSignal, wi_expires_at = map_option Format expiresAt,
      wi_created_at = Format (clock w (ticks w)), wi_updated_at = Format (clock w (ticks w))\<rparr>"

definition initialNodeRow ::
  "string \<Rightarrow> string \<Rightarrow> ctx option \<Rightarrow> string \<Rightarrow> int option \<Rightarrow> world \<Rightarrow> node_row" where
  "initialNodeRow instanceID initialNodeID context' waitingSignal expiresAt w =
     \<lparr>wn_id = initialNodeID @ ''-'' @ instanceID, wn_workflow_instance_id = instanceID,
      wn_node_id = initialNodeID, wn_context = context',
      wn_waiting_signal = waitingSignal, wn_expires_at = map_option Format expiresAt,
      wn_created_at = Format (clock w (ticks w)), wn_updated_at = Format (clock w (ticks w))\<rparr>"

text \<open>
  The state in which the head of an instance points at another execution, all else equal.
\<close>

definition setHead :: "string \<Rightarrow> string \<Rightarrow> world \<Rightarrow> world" where
  "setHead instanceID nodeInstanceID w =
     w\<lparr>workflow_instances :=
         map (\<lambda>r. if wi_id r = instanceID
                  then r\<lparr>wi_current_node_instance_id := nodeInstanceID\<rparr> else r)
             (workflow_instances w)\<rparr>"

text \<open>
  The store between the two \<^verbatim>\<open>DB.Exec\<close> calls of \<^verbatim>\<open>UpdateInstanceCurrentNodeAndContext\<close>:
  each call commits on its own, so this is what a process that stops there leaves behind.
\<close>

definition afterFirstStatement ::
  "string \<Rightarrow> string \<Rightarrow> ctx option \<Rightarrow> string \<Rightarrow> int option \<Rightarrow> world \<Rightarrow> world" where
  "afterFirstStatement instanceID newNodeID newContext waitingSignal expiresAt w =
     (case Exec (InsertNode (newNodeRow instanceID newNodeID newContext waitingSignal expiresAt w))
             (snd (time_Now w)) of
        Inr w1 \<Rightarrow> w1
      | Inl err \<Rightarrow> snd (time_Now w))"


text \<open>
  The store holds both writes of an advance or neither: the execution row is there exactly
  when the head of the instance points at it.
\<close>

definition bothOrNeither :: "world \<Rightarrow> string \<Rightarrow> string \<Rightarrow> bool" where
  "bothOrNeither w instanceID nodeInstanceID =
     ((nodeInstanceID \<in> wn_id ` set (workflow_instance_nodes w)) =
      (\<exists>r \<in> set (workflow_instances w).
          wi_id r = instanceID \<and> wi_current_node_instance_id r = nodeInstanceID))"

text \<open>The executions that the committed head updates of an instance point at, in order.\<close>

fun committedHeads :: "string \<Rightarrow> effect list \<Rightarrow> string list" where
  "committedHeads i [] = []"
| "committedHeads i (Executed (UpdateInstance x c s e t j) # es) =
     (if j = i then x # committedHeads i es else committedHeads i es)"
| "committedHeads i (eff # es) = committedHeads i es"

subsection \<open>The engine\<close>

text \<open>The state after \<^verbatim>\<open>ExecuteNextNode\<close> has started the timeout goroutine of a node, if any.\<close>

definition timeoutArmed :: "string \<Rightarrow> WorkflowInstance \<Rightarrow> WorkflowNode \<Rightarrow> world \<Rightarrow> world" where
  "timeoutArmed instanceID inst nodeDef w =
     (case node_Timeout nodeDef of
        Some timeoutCfg \<Rightarrow>
          go (GoTimeout instanceID timeoutCfg (inst_CurrentNode inst)
                (inst_CurrentNodeInstanceDBID inst)) w
      | None \<Rightarrow> w)"

text \<open>
  Every goroutine that emits a signal is started after a head update has been committed
  (\<open>committed\<close> tells whether one has been seen).
\<close>

fun emitOnlyAfterCommit :: "bool \<Rightarrow> effect list \<Rightarrow> bool" where
  "emitOnlyAfterCommit committed [] = True"
| "emitOnlyAfterCommit committed (Executed (UpdateInstance x c s e t i) # es) =
     emitOnlyAfterCommit True es"
| "emitOnlyAfterCommit committed (Started (GoEmitSignal s) # es) =
     (committed \<and> emitOnlyAfterCommit committed es)"
| "emitOnlyAfterCommit committed (eff # es) = emitOnlyAfterCommit committed es"

subsection \<open>Signals\<close>




subsection \<open>An example workflow and store\<close>

text \<open>
  A start node that catches the signal \<open>go\<close>, a form with a timeout, a gateway that throws
  a signal, and two end nodes. In \<open>exampleWorld\<close> instance \<open>u-1\<close> is at the form, \<open>u-2\<close>
  waits at the start node, and \<open>u-3\<close> is at the gateway with \<open>role = admin\<close>.
\<close>

definition startNodeDef :: WorkflowNode where
  "startNodeDef =
     \<lparr>node_ID = ''start_node'', node_Type = ''start'', node_Name = ''Start'',
      node_Next = ''approve'', node_Fields = [], node_Script = None, node_Conditions = [],
      node_End = None, node_Timeout = None,
      node_Signal = Some \<lparr>sig_Emit = [], sig_Catch = ''go'', sig_Throw = []\<rparr>\<rparr>"

definition approveNodeDef :: WorkflowNode where
  "approveNodeDef =
     \<lparr>node_ID = ''approve'', node_Type = ''form'', node_Name = ''Approve'',
      node_Next = ''route'',
      node_Fields = [\<lparr>field_ID = [], field_Name = ''role'', field_Label = [],
                      field_Type = ''text'', field_Required = True\<rparr>],
      node_Script = None, node_Conditions = [], node_End = None,
      node_Timeout = Some \<lparr>timeout_Duration = ''50ms'', timeout_Next = ''expired''\<rparr>,
      node_Signal = None\<rparr>"

definition routeNodeDef :: WorkflowNode where
  "routeNodeDef =
     \<lparr>node_ID = ''route'', node_Type = ''gateway'', node_Name = ''Route'',
      node_Next = [], node_Fields = [], node_Script = None,
      node_Conditions =
        [\<lparr>cond_When = ''role == admin'', cond_Next = ''done'', cond_Else = False,
          cond_Signal = Some \<lparr>sig_Emit = [], sig_Catch = [], sig_Throw = ''admin:entered''\<rparr>\<rparr>,
         \<lparr>cond_When = [], cond_Next = ''done'', cond_Else = True, cond_Signal = None\<rparr>],
      node_End = None, node_Timeout = None, node_Signal = None\<rparr>"

definition endNodeDef :: "string \<Rightarrow> WorkflowNode" where
  "endNodeDef nodeID =
     \<lparr>node_ID = nodeID, node_Type = ''end'', node_Name = nodeID,
      node_Next = [], node_Fields = [], node_Script = None, node_Conditions = [],
      node_End = None, node_Timeout = None, node_Signal = None\<rparr>"

definition exampleWorkflow :: Workflow where
  "exampleWorkflow =
     \<lparr>wf_ID = ''wf-1'', wf_Name = ''Approval'', wf_Description = [],
      wf_Nodes = [startNodeDef, approveNodeDef, routeNodeDef,
                  endNodeDef ''done'', endNodeDef ''expired'']\<rparr>"

definition expiredTimeout :: TimeoutConfig where
  "expiredTimeout = \<lparr>timeout_Duration = ''50ms'', timeout_Next = ''expired''\<rparr>"

definition exampleClock :: "nat \<Rightarrow> int" where
  "exampleClock n = 1700000000000000000 + 1000 * int n"

definition instanceRowAt :: "string \<Rightarrow> string \<Rightarrow> ctx \<Rightarrow> string \<Rightarrow> instance_row" where
  "instanceRowAt instanceID nodeInstanceID context' waitingSignal =
     \<lparr>wi_id = instanceID, wi_workflow_id = ''wf-1'',
      wi_current_node_instance_id = nodeInstanceID, wi_context = Some context',
      wi_waiting_signal = waitingSignal, wi_expires_at = None,
      wi_created_at = 1600000000000000000, wi_updated_at = 1600000000000000000\<rparr>"

definition nodeRowAt :: "string \<Rightarrow> string \<Rightarrow> string \<Rightarrow> ctx \<Rightarrow> string \<Rightarrow> node_row" where
  "nodeRowAt nodeInstanceID instanceID nodeID context' waitingSignal =
     \<lparr>wn_id = nodeInstanceID, wn_workflow_instance_id = instanceID, wn_node_id = nodeID,
      wn_context = Some context', wn_waiting_signal = waitingSignal, wn_expires_at = None,
      wn_created_at = 1600000000000000000, wn_updated_at = 1600000000000000000\<rparr>"

definition u1Context :: ctx where
  "u1Context = [''instanceID'' \<mapsto> VString ''u-1'']"

definition u2Context :: ctx where
  "u2Context = [''instanceID'' \<mapsto> VString ''u-2'']"

definition u3Context :: ctx where
  "u3Context = [''instanceID'' \<mapsto> VString ''u-3'', ''role'' \<mapsto> VString ''admin'']"

definition adminInput :: ctx where
  "adminInput = [''role'' \<mapsto> VString ''admin'']"

definition emptyWorld :: world where
  "emptyWorld =
     \<lparr>workflow_instances = [], workflow_instance_nodes = [],
      workflowDefinitions = [''wf-1'' \<mapsto> exampleWorkflow],
      history = [], clock = exampleClock, ticks = 0\<rparr>"



definition exampleWorld :: world where
  "exampleWorld =
     \<lparr>workflow_instances =
        [instanceRowAt ''u-1'' ''approve-u-1-100'' u1Context [],
         instanceRowAt ''u-2'' ''start_node-u-2'' u2Context ''go'',
         instanceRowAt ''u-3'' ''route-u-3-200'' u3Context []],
      workflow_instance_nodes =
        [nodeRowAt ''approve-u-1-100'' ''u-1'' ''approve'' u1Context [],
         nodeRowAt ''start_node-u-2'' ''u-2'' ''start_node'' u2Context ''go'',
         nodeRowAt ''route-u-3-200'' ''u-3'' ''route'' u3Context []],
      workflowDefinitions = [''wf-1'' \<mapsto> exampleWorkflow],
      history = [], clock = exampleClock, ticks = 0\<rparr>"

text \<open>
  The instance that \<^verbatim>\<open>GetInstanceAndDefinition\<close> builds from a head row with context \<open>c\<close>
  whose execution row is at node \<open>nodeID\<close> of the example workflow.
\<close>

definition loaded :: "instance_row \<Rightarrow> ctx \<Rightarrow> string \<Rightarrow> WorkflowNode \<Rightarrow> WorkflowInstance" where
  "loaded row c nodeID nodeDef =
     \<lparr>inst_ID = wi_id row,
      inst_WorkflowID = wi_workflow_id row,
      inst_CurrentNode = nodeID,
      inst_CurrentNodeInstanceDBID = wi_current_node_instance_id row,
      inst_Context = c,
      inst_WaitingSignal = wi_waiting_signal row,
      inst_ExpiresAt = wi_expires_at row,
      inst_CreatedAt = wi_created_at row,
      inst_UpdatedAt = wi_updated_at row,
      inst_WorkflowDef = Some exampleWorkflow,
      inst_CurrentNodeDef = Some nodeDef\<rparr>"

definition u1Loaded :: WorkflowInstance where
  "u1Loaded =
     loaded (instanceRowAt ''u-1'' ''approve-u-1-100'' u1Context []) u1Context
       ''approve'' approveNodeDef"


definition u3Loaded :: WorkflowInstance where
  "u3Loaded =
     loaded (instanceRowAt ''u-3'' ''route-u-3-200'' u3Context []) u3Context
       ''route'' routeNodeDef"

text \<open>The example store after \<open>u-1\<close> has submitted the form with \<open>role = admin\<close>.\<close>

definition afterForm :: world where
  "afterForm = snd (AdvanceInstanceAfterForm ''u-1'' ''route'' adminInput exampleWorld)"

section \<open>Properties\<close>

subsection \<open>The gateway resolver\<close>

lemma conditionTaken_throwOf: "conditionTaken c = (cond_Next c, throwOf c)"
  by (simp add: conditionTaken_def throwOf_def split: option.splits)

lemma scanConditions_find:
  "scanConditions pf fi context conds =
     (case find (branchMatches pf fi context) conds of
        None \<Rightarrow> ([], [])
      | Some c \<Rightarrow> (cond_Next c, throwOf c))"
proof (induction conds)
  case Nil
  show ?case by simp
next
  case (Cons c cs)
  show ?case
  proof (cases "branchMatches pf fi context c")
    case True
    then show ?thesis
      by (auto simp: branchMatches_def conditionTaken_throwOf split: if_splits)
  next
    case False
    then have "scanConditions pf fi context (c # cs) = scanConditions pf fi context cs"
      by (auto simp: branchMatches_def split: if_splits sum.splits)
    with False Cons.IH show ?thesis by simp
  qed
qed

text \<open>
  C3, as the code has it. The resolver scans the conditions in order and takes the first
  one that matches, where a condition with a non-empty \<open>when\<close> matches if the \<open>when\<close>
  evaluates to true (an evaluation error is no match, and \<open>else\<close> is not looked at), and a
  condition with an empty \<open>when\<close> matches if it has \<open>else: true\<close>. It returns that
  condition's \<open>next\<close> and thrown signal if the \<open>next\<close> is not empty. It returns the error
  "no matching gateway condition" if no condition matches or the one taken has an empty
  \<open>next\<close>, and the error "no conditions defined" for an empty list.
\<close>

theorem ResolveGatewayConditions_first_match:
  "ResolveGatewayConditions pf fi instance =
     (case inst_CurrentNodeDef instance of
        None \<Rightarrow> Inl NilPointerDereference
      | Some nodeDef \<Rightarrow>
          if node_Conditions nodeDef = [] then
            Inl (NoConditionsDefined (inst_CurrentNode instance) (inst_ID instance))
          else
            (case find (branchMatches pf fi (inst_Context instance)) (node_Conditions nodeDef) of
               None \<Rightarrow> Inl (NoMatchingCondition (inst_CurrentNode instance) (inst_ID instance))
             | Some c \<Rightarrow>
                 if cond_Next c = [] then
                   Inl (NoMatchingCondition (inst_CurrentNode instance) (inst_ID instance))
                 else Inr (cond_Next c, throwOf c)))"
  by (simp add: ResolveGatewayConditions_def scanConditions_find Let_def
           split: option.splits)

text \<open>
  The sample gateway with \<open>user_age = 31\<close>: the first branch is taken.
\<close>

theorem ResolveGatewayConditions_first_match_witness:
  "ResolveGatewayConditions exampleParseFloat exampleFloatOfInt
     (gatewayInstance ageBranches [''user_age'' \<mapsto> VFloat (Finite 31)])
   = Inr (''adult_path_end'', [])"
proof -
  have "find (branchMatches exampleParseFloat exampleFloatOfInt
                [''user_age'' \<mapsto> VFloat (Finite 31)]) ageBranches
        = Some (hd ageBranches)"
    by code_simp
  then show ?thesis
    using ResolveGatewayConditions_first_match
      [of exampleParseFloat exampleFloatOfInt
          "gatewayInstance ageBranches [''user_age'' \<mapsto> VFloat (Finite 31)]"]
    by (simp add: gatewayInstance_def gatewayNode_def ageBranches_def throwOf_def)
qed

text \<open>
  C3 as it is stated fails on a branch whose \<open>next\<close> is empty: with \<open>role = admin\<close> the first
  branch of \<open>thenBranches\<close> matches and throws \<open>admin:entered\<close>, and the resolver returns
  the error "no matching gateway condition".
\<close>

theorem ResolveGatewayConditions_counterexample:
  "claimedResolve exampleParseFloat exampleFloatOfInt
     (gatewayInstance thenBranches [''role'' \<mapsto> VString ''admin'']) thenBranches
   = Inr ([], ''admin:entered'') \<and>
   ResolveGatewayConditions exampleParseFloat exampleFloatOfInt
     (gatewayInstance thenBranches [''role'' \<mapsto> VString ''admin''])
   = Inl (NoMatchingCondition ''gateway-1'' ''i-1'')"
  by code_simp

subsection \<open>The condition evaluator\<close>

lemma Index_sublist: "(Index s sub = None) = (\<not> sublist sub s)"
proof (induction s)
  case Nil
  show ?case by simp
next
  case (Cons c cs)
  show ?case
  proof (cases "prefix sub (c # cs)")
    case True
    then show ?thesis by (simp add: sublist_Cons_right)
  next
    case False
    then show ?thesis using Cons.IH by (simp add: sublist_Cons_right)
  qed
qed

lemma Contains_sublist: "Contains s sub = sublist sub s"
  by (simp add: Contains_def Index_sublist)

lemma prefix_shorter:
  "prefix xs (ys @ zs) \<Longrightarrow> length xs \<le> length ys \<Longrightarrow> prefix xs ys"
  by (auto simp: prefix_append)

lemma Index_leftmost:
  assumes "sub \<noteq> []" and "\<not> sublist sub (p @ butlast sub)"
  shows "Index (p @ sub @ q) sub = Some (length p)"
  using assms(2)
proof (induction p)
  case Nil
  from assms(1) obtain c cs where "sub @ q = c # cs" by (cases sub) auto
  moreover have "prefix sub (sub @ q)" by simp
  ultimately show ?case by simp
next
  case (Cons c p)
  from Cons.prems have np: "\<not> prefix sub (c # p @ butlast sub)"
    and ns: "\<not> sublist sub (p @ butlast sub)"
    by (auto simp: sublist_Cons_right)
  have split: "c # p @ sub @ q = (c # p @ butlast sub) @ (last sub # q)"
    using assms(1) by simp
  have len: "length sub \<le> length (c # p @ butlast sub)"
    by simp
  have "\<not> prefix sub (c # p @ sub @ q)"
  proof
    assume "prefix sub (c # p @ sub @ q)"
    then have "prefix sub ((c # p @ butlast sub) @ (last sub # q))"
      by (simp only: split)
    from prefix_shorter [OF this len] np show False by simp
  qed
  then show ?case using Cons.IH [OF ns] by simp
qed

lemma scanOperators_skip:
  "\<forall>o' \<in> set os. \<not> sublist o' condition \<Longrightarrow>
   scanOperators condition (os @ rest) = scanOperators condition rest"
  by (induction os) (auto simp: Contains_sublist)

lemma scanOperators_first:
  assumes f: "firstOperator (path @ op @ lit) op"
      and l: "\<not> sublist op (path @ butlast op)"
  shows "scanOperators (path @ op @ lit) operators = Some (op, [path, lit])"
proof -
  from f have mem: "op \<in> set operators"
    and occ: "sublist op (path @ op @ lit)"
    and before: "\<forall>o' \<in> set (takeWhile (\<lambda>x. x \<noteq> op) operators). \<not> sublist o' (path @ op @ lit)"
    by (auto simp: firstOperator_def)
  from mem have ne: "op \<noteq> []" by (auto simp: operators_def)
  from mem obtain rest where ops: "operators = takeWhile (\<lambda>x. x \<noteq> op) operators @ op # rest"
    by (auto simp: operators_def)
  have idx: "Index (path @ op @ lit) op = Some (length path)"
    using ne l by (rule Index_leftmost)
  have "scanOperators (path @ op @ lit) operators =
          scanOperators (path @ op @ lit) (op # rest)"
    by (subst ops) (rule scanOperators_skip [OF before])
  also have "\<dots> = Some (op, [path, lit])"
    using occ by (simp add: Contains_sublist SplitN2_def idx)
  finally show ?thesis .
qed

lemma compareStrings_operators:
  "op \<in> set operators \<Longrightarrow> compareStrings s t op = Inr (lexCompare op s t)"
  by (auto simp: operators_def compareStrings_def lexCompare_def)

text \<open>
  Claim C6, as the code has it. The evaluator takes as operator the first of \<^verbatim>\<open>>=\<close>, \<^verbatim>\<open><=\<close>,
  \<^verbatim>\<open>==\<close>, \<^verbatim>\<open>!=\<close>, \<^verbatim>\<open>>\<close>, \<^verbatim>\<open><\<close> that occurs anywhere in the condition and splits the condition
  at the leftmost occurrence of that operator; the path and the literal are the texts before
  and after it, trimmed. For a condition \<open>path @ op @ literal\<close> that is split there: if the
  value at the path is a string, the result is the string comparison with the trimmed
  literal (lexicographic for the ordering operators), whether or not the literal parses as
  a number. If the value is a float64 or an int and the literal does not parse as a number,
  the result is the type-mismatch error. If the path is missing from the context, the
  result is the error "variable not found".
\<close>

theorem evaluateSimpleCondition_first_operator:
  assumes "firstOperator (path @ op @ lit) op" and "\<not> sublist op (path @ butlast op)"
  shows
    "(\<forall>s. getNestedValue context (TrimSpace path) = Some (VString s) \<longrightarrow>
        evaluateSimpleCondition pf fi (path @ op @ lit) context
          = Inr (lexCompare op s (TrimSpace lit))) \<and>
     (\<forall>v. getNestedValue context (TrimSpace path) = Some (VFloat v) \<and>
           pf (TrimSpace lit) = None \<longrightarrow>
        evaluateSimpleCondition pf fi (path @ op @ lit) context
          = Inl (TypeMismatch (TrimSpace lit) (TrimSpace path))) \<and>
     (\<forall>v. getNestedValue context (TrimSpace path) = Some (VInt v) \<and>
           pf (TrimSpace lit) = None \<longrightarrow>
        evaluateSimpleCondition pf fi (path @ op @ lit) context
          = Inl (TypeMismatch (TrimSpace lit) (TrimSpace path))) \<and>
     (getNestedValue context (TrimSpace path) = None \<longrightarrow>
        evaluateSimpleCondition pf fi (path @ op @ lit) context
          = Inl (VariableNotFound (TrimSpace path)))"
proof -
  have scan: "scanOperators (path @ op @ lit) operators = Some (op, [path, lit])"
    using assms by (rule scanOperators_first)
  have mem: "op \<in> set operators"
    using assms(1) by (simp add: firstOperator_def)
  have ne: "op \<noteq> []"
    using mem by (auto simp: operators_def)
  have unfolded:
    "evaluateSimpleCondition pf fi (path @ op @ lit) context =
       (case getNestedValue context (TrimSpace path) of
          None \<Rightarrow> Inl (VariableNotFound (TrimSpace path))
        | Some actualValue \<Rightarrow>
           (case actualValue of
              VFloat v \<Rightarrow>
                (case pf (TrimSpace lit) of
                   Some targetNum \<Rightarrow> compareNumbers v targetNum op
                 | None \<Rightarrow> Inl (TypeMismatch (TrimSpace lit) (TrimSpace path)))
            | VInt v \<Rightarrow>
                (case pf (TrimSpace lit) of
                   Some targetNum \<Rightarrow> compareNumbers (fi v) targetNum op
                 | None \<Rightarrow> Inl (TypeMismatch (TrimSpace lit) (TrimSpace path)))
            | VString v \<Rightarrow> compareStrings v (TrimSpace lit) op
            | _ \<Rightarrow> Inl (UnsupportedVariableType (TrimSpace path))))"
    using ne by (simp add: evaluateSimpleCondition_def scan Let_def)
  show ?thesis
    by (simp add: unfolded compareStrings_operators [OF mem])
qed

text \<open>
  The string \<open>9\<close> against the literal \<open>10\<close>: compared as strings, \<open>9 < 10\<close> is false. In
  \<open>name != a<b\<close> the operator is \<open>!=\<close>, which comes before \<open><\<close> in the order, and the literal
  is \<open>a<b\<close>. The number 9 against the literal \<open>soon\<close> is a type mismatch, and a missing
  \<open>code\<close> is an error.
\<close>

theorem evaluateSimpleCondition_first_operator_witness:
  "firstOperator ''code < 10'' ''<'' \<and> \<not> sublist ''<'' (''code '' @ butlast ''<'') \<and>
   firstOperator ''code < soon'' ''<'' \<and>
   firstOperator ''name != a<b'' ''!='' \<and> \<not> sublist ''!='' (''name '' @ butlast ''!='') \<and>
   evaluateSimpleCondition exampleParseFloat exampleFloatOfInt ''code < 10''
     [''code'' \<mapsto> VString ''9''] = Inr False \<and>
   exampleParseFloat ''10'' = Some (Finite 10) \<and>
   evaluateSimpleCondition exampleParseFloat exampleFloatOfInt ''name != a<b''
     [''name'' \<mapsto> VString ''a<b''] = Inr False \<and>
   evaluateSimpleCondition exampleParseFloat exampleFloatOfInt ''code < soon''
     [''code'' \<mapsto> VFloat (Finite 9)] = Inl (TypeMismatch ''soon'' ''code'') \<and>
   evaluateSimpleCondition exampleParseFloat exampleFloatOfInt ''code < 10''
     Map.empty = Inl (VariableNotFound ''code'')"
proof -
  have f1: "firstOperator (''code '' @ ''<'' @ '' 10'') ''<''" by code_simp
  have f2: "firstOperator (''code '' @ ''<'' @ '' soon'') ''<''" by code_simp
  have f3: "firstOperator (''name '' @ ''!='' @ '' a<b'') ''!=''" by code_simp
  have l1: "\<not> sublist ''<'' (''code '' @ butlast ''<'')" by code_simp
  have l3: "\<not> sublist ''!='' (''name '' @ butlast ''!='')" by code_simp
  have t1: "TrimSpace ''code '' = ''code''" by code_simp
  have t2: "TrimSpace '' 10'' = ''10''" by code_simp
  have t3: "TrimSpace '' soon'' = ''soon''" by code_simp
  have t4: "TrimSpace ''name '' = ''name''" by code_simp
  have t5: "TrimSpace '' a<b'' = ''a<b''" by code_simp
  have p1: "exampleParseFloat ''10'' = Some (Finite 10)"
    by (simp add: exampleParseFloat_def)
  have p2: "exampleParseFloat ''soon'' = None"
    by (simp add: exampleParseFloat_def)
  have c: "lexCompare ''<'' ''9'' ''10'' = False"
    by (simp add: lexCompare_def)
  have c': "lexCompare ''!='' ''a<b'' ''a<b'' = False"
    by (simp add: lexCompare_def)
  have a: "evaluateSimpleCondition exampleParseFloat exampleFloatOfInt ''code < 10''
             [''code'' \<mapsto> VString ''9''] = Inr False"
    using evaluateSimpleCondition_first_operator
      [OF f1 l1, of "[''code'' \<mapsto> VString ''9'']" exampleParseFloat exampleFloatOfInt]
    by (simp add: t1 t2 c getNestedValue_def)
  have a': "evaluateSimpleCondition exampleParseFloat exampleFloatOfInt ''name != a<b''
             [''name'' \<mapsto> VString ''a<b''] = Inr False"
    using evaluateSimpleCondition_first_operator
      [OF f3 l3, of "[''name'' \<mapsto> VString ''a<b'']" exampleParseFloat exampleFloatOfInt]
    by (simp add: t4 t5 c' getNestedValue_def)
  have b: "evaluateSimpleCondition exampleParseFloat exampleFloatOfInt ''code < soon''
             [''code'' \<mapsto> VFloat (Finite 9)] = Inl (TypeMismatch ''soon'' ''code'')"
    using evaluateSimpleCondition_first_operator
      [OF f2 l1, of "[''code'' \<mapsto> VFloat (Finite 9)]" exampleParseFloat exampleFloatOfInt]
    by (simp add: t1 t3 p2 getNestedValue_def)
  have d: "evaluateSimpleCondition exampleParseFloat exampleFloatOfInt ''code < 10''
             Map.empty = Inl (VariableNotFound ''code'')"
    using evaluateSimpleCondition_first_operator
      [OF f1 l1, of Map.empty exampleParseFloat exampleFloatOfInt]
    by (simp add: t1 getNestedValue_def)
  from f1 f2 f3 l1 l3 a p1 a' b d show ?thesis by simp
qed

text \<open>
  The condition \<open>token != abc==\<close>, written as the path \<open>token\<close>, the operator \<open>!=\<close> and the
  literal \<open>abc==\<close>, with the string \<open>x\<close> at \<open>token\<close>: the evaluator finds \<open>==\<close> before it
  looks for \<open>!=\<close>, takes \<open>token != abc\<close> for the path, and returns "variable not found"
  where the string comparison would be true.
\<close>

theorem evaluateSimpleCondition_counterexample:
  "''!='' \<in> set operators \<and>
   getNestedValue [''token'' \<mapsto> VString ''x''] (TrimSpace ''token '') = Some (VString ''x'') \<and>
   lexCompare ''!='' ''x'' (TrimSpace '' abc=='') \<and>
   evaluateSimpleCondition exampleParseFloat exampleFloatOfInt (''token '' @ ''!='' @ '' abc=='')
     [''token'' \<mapsto> VString ''x''] = Inl (VariableNotFound ''token != abc'')"
proof -
  have o: "''!='' \<in> set operators" by (simp add: operators_def)
  have t: "TrimSpace ''token '' = ''token''" by code_simp
  have g: "getNestedValue [''token'' \<mapsto> VString ''x''] (TrimSpace ''token '')
             = Some (VString ''x'')"
    by (simp add: t getNestedValue_def)
  have l: "lexCompare ''!='' ''x'' (TrimSpace '' abc=='')" by code_simp
  have e: "evaluateSimpleCondition exampleParseFloat exampleFloatOfInt
             (''token '' @ ''!='' @ '' abc=='') [''token'' \<mapsto> VString ''x'']
           = Inl (VariableNotFound ''token != abc'')"
    by code_simp
  from o g l e show ?thesis by (intro conjI)
qed

subsection \<open>The boolean sandbox\<close>

text \<open>
  C8, as the code has it. \<^verbatim>\<open>EvaluateCondition\<close> returns the boolean \<open>b\<close> exactly when the
  text decodes and the run returns the boolean \<open>b\<close>, or \<open>b\<close> is false and the run returns
  undefined or null; a result that is neither a boolean nor undefined nor null is the error
  "condition script did not return a boolean value".
\<close>

theorem EvaluateCondition_results:
  "((EvaluateCondition dec run code context = Inr b) =
      (\<exists>src. dec code = Some src \<and>
         (run src context = Returned (Exported (VBool b)) \<or>
          (\<not> b \<and> (run src context = Returned Undefined \<or> run src context = Returned Null))))) \<and>
   (\<forall>src v. dec code = Some src \<and> run src context = Returned (Exported v) \<and>
        (\<forall>b'. v \<noteq> VBool b') \<longrightarrow>
      EvaluateCondition dec run code context = Inl ConditionNotBoolean)"
  by (auto simp: EvaluateCondition_def
           split: option.splits vm_outcome.splits goja_value.splits jvalue.splits)

text \<open>The expression \<open>1 + 1\<close> is an error, the expression \<open>true\<close> is the boolean true.\<close>

theorem EvaluateCondition_results_witness:
  "EvaluateCondition exampleDecodeString exampleRunString ''MSArIDE='' Map.empty
     = Inl ConditionNotBoolean \<and>
   EvaluateCondition exampleDecodeString exampleRunString ''dHJ1ZQ=='' Map.empty = Inr True"
proof -
  have d1: "exampleDecodeString ''MSArIDE='' = Some ''1 + 1''"
    by (simp add: exampleDecodeString_def)
  have r1: "exampleRunString ''1 + 1'' Map.empty = Returned (Exported (VInt 2))"
    by (simp add: exampleRunString_def)
  have d2: "exampleDecodeString ''dHJ1ZQ=='' = Some ''true''"
    by (simp add: exampleDecodeString_def)
  have r2: "exampleRunString ''true'' Map.empty = Returned (Exported (VBool True))"
    by (simp add: exampleRunString_def)
  have a: "EvaluateCondition exampleDecodeString exampleRunString ''MSArIDE='' Map.empty
             = Inl ConditionNotBoolean"
    using EvaluateCondition_results
      [of exampleDecodeString exampleRunString "''MSArIDE=''" Map.empty True] d1 r1
    by simp
  have b: "EvaluateCondition exampleDecodeString exampleRunString ''dHJ1ZQ=='' Map.empty
             = Inr True"
    using EvaluateCondition_results
      [of exampleDecodeString exampleRunString "''dHJ1ZQ==''" Map.empty True] d2 r2
    by simp
  from a b show ?thesis by simp
qed

text \<open>
  C8 as it is stated fails on an undefined result: the script \<open>undefined\<close> (base64
  \<open>dW5kZWZpbmVk\<close>) evaluates to undefined, and \<^verbatim>\<open>EvaluateCondition\<close> returns false without an
  error.
\<close>

theorem EvaluateCondition_counterexample:
  "exampleDecodeString ''dW5kZWZpbmVk'' = Some ''undefined'' \<and>
   exampleRunString ''undefined'' Map.empty = Returned Undefined \<and>
   EvaluateCondition exampleDecodeString exampleRunString ''dW5kZWZpbmVk'' Map.empty
     = Inr False"
  by (simp add: EvaluateCondition_def exampleDecodeString_def exampleRunString_def)

subsection \<open>Form input\<close>

lemma find_app:
  "find P (xs @ ys) = (case find P xs of None \<Rightarrow> find P ys | Some x \<Rightarrow> Some x)"
  by (induction xs) auto

lemma storeField_apply:
  "storeField sf input context field k =
     (if field_Name field = k
      then (case input k of None \<Rightarrow> context k | Some val \<Rightarrow> Some (storedValue sf field val))
      else context k)"
  by (auto simp: storeField_def storedValue_def split: option.splits)

text \<open>
  C10. After \<^verbatim>\<open>MergeFormInputIntoContext\<close>, a key that no field declares, or that the input
  does not submit, has the value it had. A key that is declared and submitted holds what
  its field stores (the last field of that name, if the form declares the name more than
  once): for type \<open>number\<close> the float64 that \<^verbatim>\<open>Sscanf\<close> reads, or the submitted string if
  it reads none; for every other type the submitted string.
\<close>

theorem MergeFormInputIntoContext_key:
  "MergeFormInputIntoContext sf context formFields input k =
     (case find (\<lambda>f. field_Name f = k) (rev formFields) of
        None \<Rightarrow> context k
      | Some field \<Rightarrow>
          (case input k of
             None \<Rightarrow> context k
           | Some val \<Rightarrow> Some (storedValue sf field val)))"
proof (induction formFields arbitrary: "context")
  case Nil
  show ?case by simp
next
  case (Cons f fs)
  show ?case
    by (simp add: Cons.IH find_app storeField_apply split: option.splits)
qed

text \<open>
  A number field, a text field, a submitted key that is not declared, and a context key
  that is not submitted.
\<close>

theorem MergeFormInputIntoContext_key_witness:
  "MergeFormInputIntoContext exampleParseFloat [''instanceID'' \<mapsto> VString ''u-1'']
     exampleFields exampleInput ''age'' = Some (VFloat (Finite 42)) \<and>
   MergeFormInputIntoContext exampleParseFloat [''instanceID'' \<mapsto> VString ''u-1'']
     exampleFields exampleInput ''name'' = Some (VString ''alice'') \<and>
   MergeFormInputIntoContext exampleParseFloat [''instanceID'' \<mapsto> VString ''u-1'']
     exampleFields exampleInput ''extra'' = None \<and>
   MergeFormInputIntoContext exampleParseFloat [''instanceID'' \<mapsto> VString ''u-1'']
     exampleFields exampleInput ''instanceID'' = Some (VString ''u-1'')"
  unfolding MergeFormInputIntoContext_key
  by (simp add: exampleFields_def exampleInput_def storedValue_def exampleParseFloat_def)

subsection \<open>The store\<close>

lemma find_map_same:
  "(\<And>r. P (f r) = P r) \<Longrightarrow> find P (map f xs) = map_option f (find P xs)"
  by (induction xs) auto

lemma find_append_none:
  "\<forall>x \<in> set xs. \<not> P x \<Longrightarrow> find P (xs @ ys) = find P ys"
  by (induction xs) auto

lemma tick_fields [simp]:
  "workflow_instances (tick w) = workflow_instances w"
  "workflow_instance_nodes (tick w) = workflow_instance_nodes w"
  "workflowDefinitions (tick w) = workflowDefinitions w"
  "history (tick w) = history w"
  "clock (tick w) = clock w"
  "ticks (tick w) = Suc (ticks w)"
  by (simp_all add: tick_def)

lemma go_fields [simp]:
  "workflow_instances (go t w) = workflow_instances w"
  "workflow_instance_nodes (go t w) = workflow_instance_nodes w"
  "workflowDefinitions (go t w) = workflowDefinitions w"
  "history (go t w) = history w @ [Started t]"
  "clock (go t w) = clock w"
  "ticks (go t w) = ticks w"
  by (simp_all add: go_def)

lemma time_Now_tick: "time_Now w = (clock w (ticks w), tick w)"
  by (simp add: time_Now_def tick_def)

lemma advancedRow_id [simp]: "wi_id (advancedRow i n c s e w r) = wi_id r"
  by (simp add: advancedRow_def)

lemma advancedRow_current:
  "wi_id r = i \<Longrightarrow>
   wi_current_node_instance_id (advancedRow i n c s e w r) = newNodeInstanceID n i w"
  by (simp add: advancedRow_def)

lemma same_clock:
  assumes "clock w' = clock w" "ticks w' = ticks w"
  shows "newNodeInstanceID n i w' = newNodeInstanceID n i w"
    and "newNodeRow i n c s e w' = newNodeRow i n c s e w"
    and "headUpdate i n c s e w' = headUpdate i n c s e w"
  using assms by (simp_all add: newNodeInstanceID_def newNodeRow_def headUpdate_def)

lemma Update_fresh:
  assumes "newNodeInstanceID n i w \<notin> wn_id ` set (workflow_instance_nodes w)"
  shows "UpdateInstanceCurrentNodeAndContext i n c s e w =
     (Inr (newNodeInstanceID n i w),
      w\<lparr>ticks := Suc (ticks w),
        workflow_instance_nodes := workflow_instance_nodes w @ [newNodeRow i n c s e w],
        workflow_instances := map (advancedRow i n c s e w) (workflow_instances w),
        history := history w @ [Executed (InsertNode (newNodeRow i n c s e w)),
                                Executed (headUpdate i n c s e w)]\<rparr>)"
  using assms
  by (simp add: UpdateInstanceCurrentNodeAndContext_def time_Now_def Let_def
        newNodeInstanceID_def newNodeRow_def headUpdate_def advancedRow_def)

lemma Update_clash:
  assumes "newNodeInstanceID n i w \<in> wn_id ` set (workflow_instance_nodes w)"
  shows "UpdateInstanceCurrentNodeAndContext i n c s e w =
     (Inl (FailedToSaveNewNode (UniqueConstraintFailed (newNodeInstanceID n i w))),
      w\<lparr>ticks := Suc (ticks w)\<rparr>)"
  using assms
  by (simp add: UpdateInstanceCurrentNodeAndContext_def time_Now_def Let_def
        newNodeInstanceID_def)



lemma Update_steps:
  assumes "newNodeInstanceID n i w \<notin> wn_id ` set (workflow_instance_nodes w)"
  shows "\<exists>w2. Exec (headUpdate i n c s e w) (afterFirstStatement i n c s e w) = Inr w2 \<and>
           UpdateInstanceCurrentNodeAndContext i n c s e w = (Inr (newNodeInstanceID n i w), w2) \<and>
           workflow_instance_nodes (afterFirstStatement i n c s e w)
             = workflow_instance_nodes w @ [newNodeRow i n c s e w] \<and>
           workflow_instances (afterFirstStatement i n c s e w) = workflow_instances w \<and>
           workflow_instance_nodes w2 = workflow_instance_nodes w @ [newNodeRow i n c s e w] \<and>
           workflow_instances w2 = map (advancedRow i n c s e w) (workflow_instances w)"
  using assms
  by (simp add: UpdateInstanceCurrentNodeAndContext_def time_Now_def Let_def
        newNodeInstanceID_def newNodeRow_def headUpdate_def advancedRow_def
        afterFirstStatement_def)

lemma SaveNewInstance_cases:
  "SaveNewInstance i wfid n c s e w =
     (if i \<in> wi_id ` set (workflow_instances w) then
        (Inl (FailedToSaveNewInstance (UniqueConstraintFailed i)), w\<lparr>ticks := Suc (ticks w)\<rparr>)
      else if n @ ''-'' @ i \<in> wn_id ` set (workflow_instance_nodes w) then
        (Inl (FailedToSaveInitialNode (UniqueConstraintFailed (n @ ''-'' @ i))),
         w\<lparr>ticks := Suc (ticks w),
           workflow_instances := workflow_instances w @ [initialInstanceRow i wfid c s e w],
           history := history w @ [Executed (InsertInstance (initialInstanceRow i wfid c s e w))]\<rparr>)
      else
        (Inr (i, n @ ''-'' @ i),
         w\<lparr>ticks := Suc (ticks w),
           workflow_instances :=
             map (\<lambda>r. if wi_id r = i
                      then r\<lparr>wi_current_node_instance_id := n @ ''-'' @ i\<rparr> else r)
                 (workflow_instances w @ [initialInstanceRow i wfid c s e w]),
           workflow_instance_nodes := workflow_instance_nodes w @ [initialNodeRow i n c s e w],
           history := history w @
             [Executed (InsertInstance (initialInstanceRow i wfid c s e w)),
              Executed (InsertNode (initialNodeRow i n c s e w)),
              Executed (SetCurrentNodeInstance (n @ ''-'' @ i) i)]\<rparr>))"
  by (simp add: SaveNewInstance_def time_Now_def Let_def initialInstanceRow_def
        initialNodeRow_def)

lemma SaveNewInstance_steps:
  assumes "i \<notin> wi_id ` set (workflow_instances w)"
      and "n @ ''-'' @ i \<notin> wn_id ` set (workflow_instance_nodes w)"
  shows "\<exists>w1 w2 w3.
           Exec (InsertInstance (initialInstanceRow i wfid c s e w)) (snd (time_Now w)) = Inr w1 \<and>
           Exec (InsertNode (initialNodeRow i n c s e w)) w1 = Inr w2 \<and>
           Exec (SetCurrentNodeInstance (n @ ''-'' @ i) i) w2 = Inr w3 \<and>
           SaveNewInstance i wfid n c s e w = (Inr (i, n @ ''-'' @ i), w3) \<and>
           workflow_instances w1 = workflow_instances w @ [initialInstanceRow i wfid c s e w] \<and>
           workflow_instance_nodes w1 = workflow_instance_nodes w \<and>
           workflow_instances w2 = workflow_instances w1 \<and>
           workflow_instance_nodes w2 = workflow_instance_nodes w @ [initialNodeRow i n c s e w] \<and>
           workflow_instances w3 =
             map (\<lambda>r. if wi_id r = i
                      then r\<lparr>wi_current_node_instance_id := n @ ''-'' @ i\<rparr> else r)
                 (workflow_instances w2) \<and>
           workflow_instance_nodes w3 = workflow_instance_nodes w2"
  using assms
  by (simp add: SaveNewInstance_def time_Now_def Let_def initialInstanceRow_def
        initialNodeRow_def)

lemma initialInstanceRow_id: "wi_id (initialInstanceRow i wfid c s e w) = i"
  by (simp add: initialInstanceRow_def)

lemma setHead_fields [simp]:
  "workflow_instance_nodes (setHead i x w) = workflow_instance_nodes w"
  "clock (setHead i x w) = clock w" "ticks (setHead i x w) = ticks w"
  by (simp_all add: setHead_def)

lemma newNodeInstanceID_setHead [simp]:
  "newNodeInstanceID n i (setHead j x w) = newNodeInstanceID n i w"
  by (simp add: newNodeInstanceID_def)

lemma Update_outcome_ignores_head:
  "fst (UpdateInstanceCurrentNodeAndContext i n c s e (setHead i x w))
     = fst (UpdateInstanceCurrentNodeAndContext i n c s e w)"
  by (cases "newNodeInstanceID n i w \<in> wn_id ` set (workflow_instance_nodes w)")
     (simp_all add: Update_fresh Update_clash)

lemma Update_ignores_head:
  assumes "newNodeInstanceID n i w \<notin> wn_id ` set (workflow_instance_nodes w)"
  shows "UpdateInstanceCurrentNodeAndContext i n c s e (setHead i x w)
     = UpdateInstanceCurrentNodeAndContext i n c s e w"
  using assms
  by (simp add: Update_fresh)
     (simp add: setHead_def newNodeRow_def headUpdate_def advancedRow_def newNodeInstanceID_def
        comp_def if_distrib cong: if_cong)

subsection \<open>Reading an instance\<close>

lemma GetNodeByID_id: "GetNodeByID wfDef n = Some nd \<Longrightarrow> node_ID nd = n"
  by (auto simp: GetNodeByID_def find_Some_iff)

lemma load_cong:
  assumes "workflow_instances w' = workflow_instances w"
      and "workflow_instance_nodes w' = workflow_instance_nodes w"
      and "workflowDefinitions w' = workflowDefinitions w"
  shows "GetInstanceAndDefinition i w' = GetInstanceAndDefinition i w"
proof -
  have eqs: "\<And>x. GetInstance x w' = GetInstance x w"
    "\<And>x. GetNodeInstance x w' = GetNodeInstance x w"
    "\<And>x. GetWorkflowDefinition x w' = GetWorkflowDefinition x w"
    using assms by (simp_all add: GetInstance_def GetNodeInstance_def GetWorkflowDefinition_def)
  show ?thesis
    by (simp add: GetInstanceAndDefinition_def eqs cong: sum.case_cong)
qed

lemma load_tick [simp]: "GetInstanceAndDefinition i (tick w) = GetInstanceAndDefinition i w"
  by (rule load_cong) simp_all

lemma load_go [simp]: "GetInstanceAndDefinition i (go t w) = GetInstanceAndDefinition i w"
  by (rule load_cong) simp_all

lemma timeoutArmed_fields [simp]:
  "workflow_instances (timeoutArmed i inst nd w) = workflow_instances w"
  "workflow_instance_nodes (timeoutArmed i inst nd w) = workflow_instance_nodes w"
  "workflowDefinitions (timeoutArmed i inst nd w) = workflowDefinitions w"
  "clock (timeoutArmed i inst nd w) = clock w"
  "ticks (timeoutArmed i inst nd w) = ticks w"
  by (simp_all add: timeoutArmed_def split: option.splits)

lemma load_timeoutArmed [simp]:
  "GetInstanceAndDefinition i (timeoutArmed j inst nd w) = GetInstanceAndDefinition i w"
  by (rule load_cong) simp_all

lemma load_facts:
  assumes "GetInstanceAndDefinition i w = Inr inst"
  shows "inst_ID inst = i"
    and "\<exists>row. GetInstance i w = Inr row \<and>
           inst_CurrentNodeInstanceDBID inst = wi_current_node_instance_id row \<and>
           wi_context row = Some (inst_Context inst) \<and>
           inst_WaitingSignal inst = wi_waiting_signal row \<and>
           inst_ExpiresAt inst = wi_expires_at row"
    and "inst_CurrentNodeInstanceDBID inst \<in> wn_id ` set (workflow_instance_nodes w)"
proof -
  from assms obtain row where row: "GetInstance i w = Inr row"
    by (auto simp: GetInstanceAndDefinition_def split: sum.splits)
  then have f: "find (\<lambda>r. wi_id r = i) (workflow_instances w) = Some row"
    by (auto simp: GetInstance_def split: option.splits)
  then have id: "wi_id row = i"
    by (auto simp: find_Some_iff)
  from assms row obtain nodeRow where
    nr: "GetNodeInstance (wi_current_node_instance_id row) w = Inr nodeRow"
    by (auto simp: GetInstanceAndDefinition_def split: sum.splits)
  then have "find (\<lambda>r. wn_id r = wi_current_node_instance_id row) (workflow_instance_nodes w)
               = Some nodeRow"
    by (auto simp: GetNodeInstance_def split: option.splits)
  then have mem: "wi_current_node_instance_id row \<in> wn_id ` set (workflow_instance_nodes w)"
    by (auto simp: find_Some_iff image_iff) (metis nth_mem)
  from assms row nr id show "inst_ID inst = i"
    by (auto simp: GetInstanceAndDefinition_def Let_def split: sum.splits option.splits if_splits)
  from assms row nr show "\<exists>row. GetInstance i w = Inr row \<and>
           inst_CurrentNodeInstanceDBID inst = wi_current_node_instance_id row \<and>
           wi_context row = Some (inst_Context inst) \<and>
           inst_WaitingSignal inst = wi_waiting_signal row \<and>
           inst_ExpiresAt inst = wi_expires_at row"
    by (auto simp: GetInstanceAndDefinition_def Let_def split: sum.splits option.splits if_splits)
  from assms row nr mem
  show "inst_CurrentNodeInstanceDBID inst \<in> wn_id ` set (workflow_instance_nodes w)"
    by (auto simp: GetInstanceAndDefinition_def Let_def split: sum.splits option.splits if_splits)
qed

lemma load_advanced:
  assumes rows: "workflow_instances w' =
                   map (advancedRow i n (Some c) s e w0) (workflow_instances w)"
      and nodes: "workflow_instance_nodes w' =
                    workflow_instance_nodes w @ [newNodeRow i n (Some c) s e w0]"
      and defs: "workflowDefinitions w' = workflowDefinitions w"
      and old: "GetInstanceAndDefinition i w = Inr inst"
      and fresh: "newNodeInstanceID n i w0 \<notin> wn_id ` set (workflow_instance_nodes w)"
      and wfd: "inst_WorkflowDef inst = Some wfDef"
      and nd: "GetNodeByID wfDef n = Some nodeDef"
  shows "\<exists>inst'. GetInstanceAndDefinition i w' = Inr inst' \<and>
           inst_CurrentNodeInstanceDBID inst' = newNodeInstanceID n i w0 \<and>
           inst_CurrentNode inst' = n \<and>
           inst_Context inst' = c \<and>
           inst_WaitingSignal inst' = s \<and>
           inst_ExpiresAt inst' = map_option Format e \<and>
           inst_WorkflowDef inst' = Some wfDef \<and>
           inst_CurrentNodeDef inst' = Some nodeDef"
proof -
  from load_facts(2) [OF old] obtain row where row: "GetInstance i w = Inr row" by blast
  then have f: "find (\<lambda>r. wi_id r = i) (workflow_instances w) = Some row"
    by (auto simp: GetInstance_def split: option.splits)
  then have rid: "wi_id row = i" by (auto simp: find_Some_iff)
  from old row have wf: "GetWorkflowDefinition (wi_workflow_id row) w = Inr wfDef"
    using wfd
    by (auto simp: GetInstanceAndDefinition_def Let_def split: sum.splits option.splits if_splits)
  have gi: "GetInstance i w' = Inr (advancedRow i n (Some c) s e w0 row)"
    by (simp add: GetInstance_def rows find_map_same f)
  have "\<forall>x \<in> set (workflow_instance_nodes w). \<not> wn_id x = newNodeInstanceID n i w0"
    using fresh by force
  then have "find (\<lambda>r. wn_id r = newNodeInstanceID n i w0)
               (workflow_instance_nodes w @ [newNodeRow i n (Some c) s e w0])
             = Some (newNodeRow i n (Some c) s e w0)"
    by (subst find_append_none) (simp_all add: newNodeRow_def)
  then have gn: "GetNodeInstance (newNodeInstanceID n i w0) w' = Inr (newNodeRow i n (Some c) s e w0)"
    by (simp add: GetNodeInstance_def nodes)
  have gw: "GetWorkflowDefinition (wi_workflow_id row) w' = Inr wfDef"
    using wf by (simp add: GetWorkflowDefinition_def defs)
  show ?thesis
    by (simp add: GetInstanceAndDefinition_def gi advancedRow_def rid gn gw Let_def
          newNodeRow_def nd)
qed

subsection \<open>Advancing an instance\<close>

lemma advanceInstance_fresh:
  assumes load: "GetInstanceAndDefinition i w = Inr inst"
      and fresh: "newNodeInstanceID n i (tick w) \<notin> wn_id ` set (workflow_instance_nodes w)"
  shows "workflow_instance_nodes (snd (advanceInstance i n None w)) =
           workflow_instance_nodes w @
             [newNodeRow i n (Some (inst_Context inst)) [] (inst_ExpiresAt inst) (tick w)]"
    and "workflow_instances (snd (advanceInstance i n None w)) =
           map (advancedRow i n (Some (inst_Context inst)) [] (inst_ExpiresAt inst) (tick w))
             (workflow_instances w)"
    and "\<exists>rest. history (snd (advanceInstance i n None w)) =
           history w @
             [Executed (InsertNode (newNodeRow i n (Some (inst_Context inst)) []
                                      (inst_ExpiresAt inst) (tick w))),
              Executed (headUpdate i n (Some (inst_Context inst)) []
                          (inst_ExpiresAt inst) (tick w))] @ rest"
proof -
  have id: "inst_ID inst = i"
    using load by (rule load_facts(1))
  have fresh': "newNodeInstanceID n i (tick w) \<notin> wn_id ` set (workflow_instance_nodes (tick w))"
    using fresh by simp
  note upd = Update_fresh [OF fresh', of "Some (inst_Context inst)" "[]" "inst_ExpiresAt inst"]
  show "workflow_instance_nodes (snd (advanceInstance i n None w)) =
           workflow_instance_nodes w @
             [newNodeRow i n (Some (inst_Context inst)) [] (inst_ExpiresAt inst) (tick w)]"
    by (simp add: advanceInstance_def load id time_Now_tick upd Let_def split: option.splits)
  show "workflow_instances (snd (advanceInstance i n None w)) =
           map (advancedRow i n (Some (inst_Context inst)) [] (inst_ExpiresAt inst) (tick w))
             (workflow_instances w)"
    by (simp add: advanceInstance_def load id time_Now_tick upd Let_def split: option.splits)
  show "\<exists>rest. history (snd (advanceInstance i n None w)) =
           history w @
             [Executed (InsertNode (newNodeRow i n (Some (inst_Context inst)) []
                                      (inst_ExpiresAt inst) (tick w))),
              Executed (headUpdate i n (Some (inst_Context inst)) []
                          (inst_ExpiresAt inst) (tick w))] @ rest"
    by (simp add: advanceInstance_def load id time_Now_tick upd Let_def split: option.splits)
qed

lemma advanceInstance_ok:
  assumes load: "GetInstanceAndDefinition i w = Inr inst"
      and fresh: "newNodeInstanceID n i (tick w) \<notin> wn_id ` set (workflow_instance_nodes w)"
      and wfd: "inst_WorkflowDef inst = Some wfDef"
      and nd: "GetNodeByID wfDef n = Some nodeDef"
  shows "fst (advanceInstance i n None w) = Inr ()"
    and "history (snd (advanceInstance i n None w)) =
           history w @
             [Executed (InsertNode (newNodeRow i n (Some (inst_Context inst)) []
                                      (inst_ExpiresAt inst) (tick w))),
              Executed (headUpdate i n (Some (inst_Context inst)) []
                          (inst_ExpiresAt inst) (tick w))] @
             (if node_Type nodeDef \<noteq> ''end'' \<and> node_Type nodeDef \<noteq> ''form''
              then [Started (GoExecuteNextNode i)] else [])"
proof -
  have id: "inst_ID inst = i" using load by (rule load_facts(1))
  have fresh': "newNodeInstanceID n i (tick w) \<notin> wn_id ` set (workflow_instance_nodes (tick w))"
    using fresh by simp
  note upd = Update_fresh [OF fresh', of "Some (inst_Context inst)" "[]" "inst_ExpiresAt inst"]
  show "fst (advanceInstance i n None w) = Inr ()"
    by (simp add: advanceInstance_def load id time_Now_tick upd Let_def wfd nd)
  show "history (snd (advanceInstance i n None w)) =
           history w @
             [Executed (InsertNode (newNodeRow i n (Some (inst_Context inst)) []
                                      (inst_ExpiresAt inst) (tick w))),
              Executed (headUpdate i n (Some (inst_Context inst)) []
                          (inst_ExpiresAt inst) (tick w))] @
             (if node_Type nodeDef \<noteq> ''end'' \<and> node_Type nodeDef \<noteq> ''form''
              then [Started (GoExecuteNextNode i)] else [])"
    by (simp add: advanceInstance_def load id time_Now_tick upd Let_def wfd nd)
qed

lemma AdvanceInstanceAfterForm_fresh:
  assumes load: "GetInstanceAndDefinition i w = Inr inst"
      and fresh: "newNodeInstanceID n i w \<notin> wn_id ` set (workflow_instance_nodes w)"
  shows "AdvanceInstanceAfterForm i n formData w =
           (Inr (), go (GoExecuteNextNode i)
                      (snd (UpdateInstanceCurrentNodeAndContext i n
                              (Some (inst_Context inst ++ formData)) [] None w)))"
proof -
  have id: "inst_ID inst = i" using load by (rule load_facts(1))
  show ?thesis
    by (simp add: AdvanceInstanceAfterForm_def load id Update_fresh [OF fresh])
qed

lemma ExecuteNextNode_gateway:
  assumes load: "GetInstanceAndDefinition instanceID w = Inr inst"
    and nd: "inst_CurrentNodeDef inst = Some nodeDef"
    and ty: "node_Type nodeDef = ''gateway''"
    and nw: "inst_WaitingSignal inst = []"
    and ne: "inst_ExpiresAt inst = None"
    and res: "ResolveGatewayConditions pf fi inst = Inr (next, sg)"
    and sg: "sg \<noteq> []"
  shows "ExecuteNextNode pf fi dec run instanceID w =
           advanceInstance instanceID next None
             (go (GoEmitSignal sg) (timeoutArmed instanceID inst nodeDef w))"
proof -
  have id: "inst_ID inst = instanceID"
    using load by (rule load_facts(1))
  show ?thesis
    using sg
    by (simp add: ExecuteNextNode_def load nd ty nw ne res id timeoutArmed_def Let_def)
qed

lemma ExecuteNextNode_gateway_history:
  assumes load: "GetInstanceAndDefinition instanceID w = Inr inst"
    and nd: "inst_CurrentNodeDef inst = Some nodeDef"
    and ty: "node_Type nodeDef = ''gateway''"
    and nw: "inst_WaitingSignal inst = []"
    and ne: "inst_ExpiresAt inst = None"
    and res: "ResolveGatewayConditions pf fi inst = Inr (next, sg)"
    and sg: "sg \<noteq> []"
    and fresh: "newNodeInstanceID next instanceID (tick w)
                  \<notin> wn_id ` set (workflow_instance_nodes w)"
  shows "\<exists>rest. history (snd (ExecuteNextNode pf fi dec run instanceID w)) =
           history (timeoutArmed instanceID inst nodeDef w) @
             [Started (GoEmitSignal sg),
              Executed (InsertNode (newNodeRow instanceID next (Some (inst_Context inst)) []
                                      None (tick w))),
              Executed (headUpdate instanceID next (Some (inst_Context inst)) []
                          None (tick w))] @ rest"
proof -
  let ?w2 = "go (GoEmitSignal sg) (timeoutArmed instanceID inst nodeDef w)"
  have l2: "GetInstanceAndDefinition instanceID ?w2 = Inr inst"
    using load by simp
  have c: "clock (tick ?w2) = clock (tick w)" "ticks (tick ?w2) = ticks (tick w)"
    by simp_all
  have f2: "newNodeInstanceID next instanceID (tick ?w2)
              \<notin> wn_id ` set (workflow_instance_nodes ?w2)"
    using fresh by (simp add: same_clock(1) [OF c])
  show ?thesis
    using advanceInstance_fresh(3) [OF l2 f2]
    by (simp add: ExecuteNextNode_gateway [OF load nd ty nw ne res sg] ne
          same_clock(2) [OF c] same_clock(3) [OF c])
qed

subsection \<open>The example store\<close>

lemma digit_chars:
  "char_of (48::nat) = CHR ''0''" "char_of (49::nat) = CHR ''1''" "char_of (50::nat) = CHR ''2''"
  "char_of (51::nat) = CHR ''3''" "char_of (52::nat) = CHR ''4''" "char_of (53::nat) = CHR ''5''"
  "char_of (54::nat) = CHR ''6''" "char_of (55::nat) = CHR ''7''" "char_of (56::nat) = CHR ''8''"
  "char_of (57::nat) = CHR ''9''"
  by code_simp+

lemma exampleClock_text:
  "Sprintf_d (exampleClock 0) = ''1700000000000000000''"
  "Sprintf_d (exampleClock (Suc 0)) = ''1700000000000001000''"
  "Sprintf_d (exampleClock (Suc (Suc 0))) = ''1700000000000002000''"
  by (simp_all add: exampleClock_def Sprintf_d_def natToDecimal.simps digit_chars)

lemma example_nodes:
  "GetNodeByID exampleWorkflow ''start_node'' = Some startNodeDef"
  "GetNodeByID exampleWorkflow ''approve'' = Some approveNodeDef"
  "GetNodeByID exampleWorkflow ''route'' = Some routeNodeDef"
  "GetNodeByID exampleWorkflow ''done'' = Some (endNodeDef ''done'')"
  "GetNodeByID exampleWorkflow ''expired'' = Some (endNodeDef ''expired'')"
  by (simp_all add: GetNodeByID_def exampleWorkflow_def startNodeDef_def approveNodeDef_def
        routeNodeDef_def endNodeDef_def)

lemma instanceRowAt_sel [simp]:
  "wi_id (instanceRowAt i x c s) = i"
  "wi_workflow_id (instanceRowAt i x c s) = ''wf-1''"
  "wi_current_node_instance_id (instanceRowAt i x c s) = x"
  "wi_context (instanceRowAt i x c s) = Some c"
  "wi_waiting_signal (instanceRowAt i x c s) = s"
  "wi_expires_at (instanceRowAt i x c s) = None"
  by (simp_all add: instanceRowAt_def)

lemma nodeRowAt_sel [simp]:
  "wn_id (nodeRowAt x i n c s) = x"
  "wn_node_id (nodeRowAt x i n c s) = n"
  by (simp_all add: nodeRowAt_def)

lemma loaded_sel [simp]:
  "inst_ID (loaded row c n nd) = wi_id row"
  "inst_CurrentNode (loaded row c n nd) = n"
  "inst_CurrentNodeInstanceDBID (loaded row c n nd) = wi_current_node_instance_id row"
  "inst_Context (loaded row c n nd) = c"
  "inst_WaitingSignal (loaded row c n nd) = wi_waiting_signal row"
  "inst_ExpiresAt (loaded row c n nd) = wi_expires_at row"
  "inst_WorkflowDef (loaded row c n nd) = Some exampleWorkflow"
  "inst_CurrentNodeDef (loaded row c n nd) = Some nd"
  by (simp_all add: loaded_def)

lemma load_by_rows:
  assumes "find (\<lambda>r. wi_id r = i) (workflow_instances w) = Some row"
      and "find (\<lambda>r. wn_id r = wi_current_node_instance_id row) (workflow_instance_nodes w)
             = Some nodeRow"
      and "workflowDefinitions w (wi_workflow_id row) = Some exampleWorkflow"
      and "wi_context row = Some c"
      and "GetNodeByID exampleWorkflow (wn_node_id nodeRow) = Some nodeDef"
  shows "GetInstanceAndDefinition i w = Inr (loaded row c (wn_node_id nodeRow) nodeDef)"
  using assms
  by (simp add: GetInstanceAndDefinition_def GetInstance_def GetNodeInstance_def
        GetWorkflowDefinition_def Let_def loaded_def)

lemma exampleWorld_fields:
  "workflow_instances exampleWorld =
     [instanceRowAt ''u-1'' ''approve-u-1-100'' u1Context [],
      instanceRowAt ''u-2'' ''start_node-u-2'' u2Context ''go'',
      instanceRowAt ''u-3'' ''route-u-3-200'' u3Context []]"
  "map wn_id (workflow_instance_nodes exampleWorld) =
     [''approve-u-1-100'', ''start_node-u-2'', ''route-u-3-200'']"
  "workflowDefinitions exampleWorld = [''wf-1'' \<mapsto> exampleWorkflow]"
  "history exampleWorld = []"
  "clock exampleWorld = exampleClock"
  "ticks exampleWorld = 0"
  by (simp_all add: exampleWorld_def)

lemma load_u1: "GetInstanceAndDefinition ''u-1'' exampleWorld = Inr u1Loaded"
  unfolding u1Loaded_def
  by (rule load_by_rows [where nodeRow = "nodeRowAt ''approve-u-1-100'' ''u-1'' ''approve''
           u1Context []", THEN trans])
     (simp_all add: exampleWorld_def example_nodes)


lemma load_u3: "GetInstanceAndDefinition ''u-3'' exampleWorld = Inr u3Loaded"
  unfolding u3Loaded_def
  by (rule load_by_rows [where nodeRow = "nodeRowAt ''route-u-3-200'' ''u-3'' ''route''
           u3Context []", THEN trans])
     (simp_all add: exampleWorld_def example_nodes)

lemma example_ids:
  "newNodeInstanceID ''route'' ''u-1'' exampleWorld = ''route-u-1-1700000000000000000''"
  "newNodeInstanceID ''expired'' ''u-1'' (tick exampleWorld) = ''expired-u-1-1700000000000001000''"
  "newNodeInstanceID ''start_node'' ''u-2'' exampleWorld = ''start_node-u-2-1700000000000000000''"
  "newNodeInstanceID ''done'' ''u-3'' (tick exampleWorld) = ''done-u-3-1700000000000001000''"
  by (simp_all add: newNodeInstanceID_def exampleWorld_fields exampleClock_text)

lemma example_fresh:
  "newNodeInstanceID ''route'' ''u-1'' exampleWorld
     \<notin> wn_id ` set (workflow_instance_nodes exampleWorld)"
  "newNodeInstanceID ''expired'' ''u-1'' (tick exampleWorld)
     \<notin> wn_id ` set (workflow_instance_nodes exampleWorld)"
  "newNodeInstanceID ''start_node'' ''u-2'' exampleWorld
     \<notin> wn_id ` set (workflow_instance_nodes exampleWorld)"
  "newNodeInstanceID ''done'' ''u-3'' (tick exampleWorld)
     \<notin> wn_id ` set (workflow_instance_nodes exampleWorld)"
  unfolding example_ids set_map [symmetric] exampleWorld_fields
  by simp_all

lemma u3_resolve:
  "ResolveGatewayConditions exampleParseFloat exampleFloatOfInt u3Loaded
     = Inr (''done'', ''admin:entered'')"
  by code_simp

lemma u3_facts:
  "inst_CurrentNodeDef u3Loaded = Some routeNodeDef"
  "node_Type routeNodeDef = ''gateway''"
  "inst_WaitingSignal u3Loaded = []"
  "inst_ExpiresAt u3Loaded = None"
  "node_Timeout routeNodeDef = None"
  "inst_Context u3Loaded = u3Context"
  by (simp_all add: u3Loaded_def routeNodeDef_def)

lemma afterForm_eq:
  "AdvanceInstanceAfterForm ''u-1'' ''route'' adminInput exampleWorld = (Inr (), afterForm)"
  "workflow_instances afterForm =
     map (advancedRow ''u-1'' ''route'' (Some (u1Context ++ adminInput)) [] None exampleWorld)
       (workflow_instances exampleWorld)"
  "workflow_instance_nodes afterForm =
     workflow_instance_nodes exampleWorld @
       [newNodeRow ''u-1'' ''route'' (Some (u1Context ++ adminInput)) [] None exampleWorld]"
  "workflowDefinitions afterForm = workflowDefinitions exampleWorld"
  "history afterForm =
     [Executed (InsertNode (newNodeRow ''u-1'' ''route'' (Some (u1Context ++ adminInput)) []
                              None exampleWorld)),
      Executed (headUpdate ''u-1'' ''route'' (Some (u1Context ++ adminInput)) [] None exampleWorld),
      Started (GoExecuteNextNode ''u-1'')]"
  "clock afterForm = exampleClock"
  "ticks afterForm = Suc 0"
  using AdvanceInstanceAfterForm_fresh [OF load_u1 example_fresh(1), of adminInput]
  by (simp_all add: afterForm_def Update_fresh [OF example_fresh(1)] u1Loaded_def
        exampleWorld_fields(4-6))

lemma afterForm_id:
  "newNodeInstanceID ''expired'' ''u-1'' (tick afterForm) = ''expired-u-1-1700000000000002000''"
  by (simp add: newNodeInstanceID_def afterForm_eq exampleClock_text)

lemma afterForm_fresh:
  "newNodeInstanceID ''expired'' ''u-1'' (tick afterForm)
     \<notin> wn_id ` set (workflow_instance_nodes afterForm)"
  unfolding afterForm_id afterForm_eq(3)
  using exampleWorld_fields(2)
  by (simp add: newNodeRow_def example_ids set_map [symmetric] del: set_map)

subsection \<open>The persistence layer takes no expected execution ID\<close>

text \<open>
  Claim C1, as the code has it. \<^verbatim>\<open>UpdateInstanceCurrentNodeAndContext\<close> has no parameter for
  the execution the caller believes to be current, and its \<^verbatim>\<open>UPDATE\<close> selects the row by
  instance id alone. So its outcome is the same whatever execution the head points at, and
  where the generated row id is new it commits from every such head and leaves the head at
  the new execution: a caller that decided on an older head is not turned away.
\<close>

theorem UpdateInstanceCurrentNodeAndContext_no_expected_id:
  "fst (UpdateInstanceCurrentNodeAndContext i n c s e (setHead i x w))
     = fst (UpdateInstanceCurrentNodeAndContext i n c s e w) \<and>
   (newNodeInstanceID n i w \<notin> wn_id ` set (workflow_instance_nodes w) \<longrightarrow>
      UpdateInstanceCurrentNodeAndContext i n c s e (setHead i x w)
        = UpdateInstanceCurrentNodeAndContext i n c s e w \<and>
      fst (UpdateInstanceCurrentNodeAndContext i n c s e w) = Inr (newNodeInstanceID n i w) \<and>
      (\<forall>r \<in> set (workflow_instances (snd (UpdateInstanceCurrentNodeAndContext i n c s e w))).
          wi_id r = i \<longrightarrow> wi_current_node_instance_id r = newNodeInstanceID n i w))"
proof (intro conjI impI)
  show "fst (UpdateInstanceCurrentNodeAndContext i n c s e (setHead i x w))
          = fst (UpdateInstanceCurrentNodeAndContext i n c s e w)"
    by (rule Update_outcome_ignores_head)
next
  assume f: "newNodeInstanceID n i w \<notin> wn_id ` set (workflow_instance_nodes w)"
  show "UpdateInstanceCurrentNodeAndContext i n c s e (setHead i x w)
          = UpdateInstanceCurrentNodeAndContext i n c s e w"
    using f by (rule Update_ignores_head)
  show "fst (UpdateInstanceCurrentNodeAndContext i n c s e w) = Inr (newNodeInstanceID n i w)"
    by (simp add: Update_fresh [OF f])
  show "\<forall>r \<in> set (workflow_instances (snd (UpdateInstanceCurrentNodeAndContext i n c s e w))).
          wi_id r = i \<longrightarrow> wi_current_node_instance_id r = newNodeInstanceID n i w"
  proof (intro ballI impI)
    fix r
    assume "r \<in> set (workflow_instances (snd (UpdateInstanceCurrentNodeAndContext i n c s e w)))"
      and ri: "wi_id r = i"
    then obtain r0 where r0: "r = advancedRow i n c s e w r0"
      by (auto simp: Update_fresh [OF f])
    with ri have "wi_id r0 = i" by simp
    then show "wi_current_node_instance_id r = newNodeInstanceID n i w"
      unfolding r0 by (rule advancedRow_current)
  qed
qed

theorem UpdateInstanceCurrentNodeAndContext_no_expected_id_witness:
  "newNodeInstanceID ''route'' ''u-1'' exampleWorld
     \<notin> wn_id ` set (workflow_instance_nodes exampleWorld) \<and>
   UpdateInstanceCurrentNodeAndContext ''u-1'' ''route'' (Some u1Context) [] None
       (setHead ''u-1'' ''some-other-execution'' exampleWorld)
     = UpdateInstanceCurrentNodeAndContext ''u-1'' ''route'' (Some u1Context) [] None exampleWorld \<and>
   fst (UpdateInstanceCurrentNodeAndContext ''u-1'' ''route'' (Some u1Context) [] None exampleWorld)
     = Inr ''route-u-1-1700000000000000000''"
  using UpdateInstanceCurrentNodeAndContext_no_expected_id
          [of "''u-1''" "''route''" "Some u1Context" "[]" None "''some-other-execution''"
              exampleWorld]
        example_fresh(1)
  by (simp add: example_ids)

text \<open>
  Two transitions decided on the same execution both commit. Instance \<open>u-1\<close> pauses at the
  form in execution \<open>approve-u-1-100\<close>, whose timeout is armed. The timeout goroutine reads
  the head and finds the armed execution still current; the form is then submitted and that
  advance commits; the goroutine goes on to \<^verbatim>\<open>advanceInstance\<close>, which commits as well.
\<close>

theorem double_advance_counterexample:
  "GetInstanceAndDefinition ''u-1'' exampleWorld = Inr u1Loaded \<and>
   inst_CurrentNodeInstanceDBID u1Loaded = ''approve-u-1-100'' \<and>
   AdvanceInstanceAfterForm ''u-1'' ''route'' adminInput exampleWorld = (Inr (), afterForm) \<and>
   fst (advanceInstance ''u-1'' ''expired'' None afterForm) = Inr () \<and>
   committedHeads ''u-1'' (history (snd (advanceInstance ''u-1'' ''expired'' None afterForm)))
     = [''route-u-1-1700000000000000000'', ''expired-u-1-1700000000000002000'']"
proof -
  have a: "inst_CurrentNodeInstanceDBID u1Loaded = ''approve-u-1-100''"
    by (simp add: u1Loaded_def)
  have wf1: "inst_WorkflowDef u1Loaded = Some exampleWorkflow"
    by (simp add: u1Loaded_def)
  from load_advanced [OF afterForm_eq(2) afterForm_eq(3) afterForm_eq(4) load_u1 example_fresh(1)
                         wf1 example_nodes(3)]
  obtain inst' where l: "GetInstanceAndDefinition ''u-1'' afterForm = Inr inst'"
    and wfd: "inst_WorkflowDef inst' = Some exampleWorkflow"
    by auto
  note adv = advanceInstance_ok [OF l afterForm_fresh wfd example_nodes(5)]
  have c: "committedHeads ''u-1'' (history (snd (advanceInstance ''u-1'' ''expired'' None afterForm)))
             = [''route-u-1-1700000000000000000'', ''expired-u-1-1700000000000002000'']"
    by (simp add: adv(2) afterForm_eq(5) headUpdate_def endNodeDef_def example_ids afterForm_id)
  from load_u1 a afterForm_eq(1) adv(1) c show ?thesis by blast
qed

subsection \<open>The writes of an advance are separate statements\<close>

text \<open>
  Claim C2, as the code has it. \<^verbatim>\<open>UpdateInstanceCurrentNodeAndContext\<close> runs its \<^verbatim>\<open>INSERT\<close> and
  its \<^verbatim>\<open>UPDATE\<close> as two \<^verbatim>\<open>DB.Exec\<close> calls and \<^verbatim>\<open>SaveNewInstance\<close> runs three, none inside a
  transaction, so each is committed when it returns. Where the ids are new every statement
  succeeds, and the store passes through the states in between: after the first statement
  of an advance the execution row is stored and the head rows are as before; after the
  first statement of a creation the instance row is stored and no execution row; after the
  second both rows are stored and the head does not point at the execution yet.
\<close>

theorem store_writes_separately_committed:
  "(newNodeInstanceID n i w \<notin> wn_id ` set (workflow_instance_nodes w) \<longrightarrow>
      (\<exists>w2. Exec (headUpdate i n c s e w) (afterFirstStatement i n c s e w) = Inr w2 \<and>
         UpdateInstanceCurrentNodeAndContext i n c s e w = (Inr (newNodeInstanceID n i w), w2) \<and>
         workflow_instance_nodes (afterFirstStatement i n c s e w)
           = workflow_instance_nodes w @ [newNodeRow i n c s e w] \<and>
         workflow_instances (afterFirstStatement i n c s e w) = workflow_instances w \<and>
         workflow_instance_nodes w2 = workflow_instance_nodes w @ [newNodeRow i n c s e w] \<and>
         workflow_instances w2 = map (advancedRow i n c s e w) (workflow_instances w))) \<and>
   (i' \<notin> wi_id ` set (workflow_instances w) \<and>
    n' @ ''-'' @ i' \<notin> wn_id ` set (workflow_instance_nodes w) \<longrightarrow>
      (\<exists>w1 w2 w3.
         Exec (InsertInstance (initialInstanceRow i' wfid c' s' e' w)) (snd (time_Now w)) = Inr w1 \<and>
         Exec (InsertNode (initialNodeRow i' n' c' s' e' w)) w1 = Inr w2 \<and>
         Exec (SetCurrentNodeInstance (n' @ ''-'' @ i') i') w2 = Inr w3 \<and>
         SaveNewInstance i' wfid n' c' s' e' w = (Inr (i', n' @ ''-'' @ i'), w3) \<and>
         workflow_instances w1 = workflow_instances w @ [initialInstanceRow i' wfid c' s' e' w] \<and>
         workflow_instance_nodes w1 = workflow_instance_nodes w \<and>
         workflow_instances w2 = workflow_instances w1 \<and>
         workflow_instance_nodes w2 = workflow_instance_nodes w @ [initialNodeRow i' n' c' s' e' w] \<and>
         workflow_instances w3 =
           map (\<lambda>r. if wi_id r = i'
                    then r\<lparr>wi_current_node_instance_id := n' @ ''-'' @ i'\<rparr> else r)
               (workflow_instances w2) \<and>
         workflow_instance_nodes w3 = workflow_instance_nodes w2))"
  using Update_steps [of n i w c s e] SaveNewInstance_steps [of i' w n' wfid c' s' e']
  by blast

theorem store_writes_separately_committed_witness:
  "newNodeInstanceID ''route'' ''u-1'' exampleWorld
     \<notin> wn_id ` set (workflow_instance_nodes exampleWorld) \<and>
   ''u-9'' \<notin> wi_id ` set (workflow_instances exampleWorld) \<and>
   ''start_node'' @ ''-'' @ ''u-9'' \<notin> wn_id ` set (workflow_instance_nodes exampleWorld) \<and>
   fst (UpdateInstanceCurrentNodeAndContext ''u-1'' ''route'' (Some u1Context) [] None exampleWorld)
     = Inr ''route-u-1-1700000000000000000'' \<and>
   workflow_instances (afterFirstStatement ''u-1'' ''route'' (Some u1Context) [] None exampleWorld)
     = workflow_instances exampleWorld \<and>
   fst (SaveNewInstance ''u-9'' ''wf-1'' ''start_node'' (Some u1Context) [] None exampleWorld)
     = Inr (''u-9'', ''start_node-u-9'')"
proof -
  have h1: "newNodeInstanceID ''route'' ''u-1'' exampleWorld
              \<notin> wn_id ` set (workflow_instance_nodes exampleWorld)"
    by (rule example_fresh(1))
  have h2: "''u-9'' \<notin> wi_id ` set (workflow_instances exampleWorld)"
    by (simp add: exampleWorld_fields(1))
  have h3: "''start_node'' @ ''-'' @ ''u-9'' \<notin> wn_id ` set (workflow_instance_nodes exampleWorld)"
    unfolding set_map [symmetric] exampleWorld_fields by simp
  note T = store_writes_separately_committed
             [where n = "''route''" and i = "''u-1''" and w = exampleWorld
                and c = "Some u1Context" and s = "[]" and e = None
                and i' = "''u-9''" and n' = "''start_node''" and wfid = "''wf-1''"
                and c' = "Some u1Context" and s' = "[]" and e' = None]
  from T [THEN conjunct1, THEN mp, OF h1]
  have a: "fst (UpdateInstanceCurrentNodeAndContext ''u-1'' ''route'' (Some u1Context) [] None
                  exampleWorld) = Inr ''route-u-1-1700000000000000000''"
    and b: "workflow_instances (afterFirstStatement ''u-1'' ''route'' (Some u1Context) [] None
                                  exampleWorld) = workflow_instances exampleWorld"
    by (auto simp: example_ids)
  from T [THEN conjunct2, THEN mp, OF conjI [OF h2 h3]]
  have c: "fst (SaveNewInstance ''u-9'' ''wf-1'' ''start_node'' (Some u1Context) [] None
                  exampleWorld) = Inr (''u-9'', ''start_node-u-9'')"
    by auto
  from h1 h2 h3 a b c show ?thesis by blast
qed

text \<open>
  A process that stops between the two statements of an advance of \<open>u-1\<close> to \<open>route\<close>
  leaves the new execution row in the store while the head still points at the old one.
\<close>

theorem crash_between_writes_counterexample:
  "\<not> bothOrNeither
       (afterFirstStatement ''u-1'' ''route'' (Some (u1Context ++ adminInput)) [] None exampleWorld)
       ''u-1'' ''route-u-1-1700000000000000000''"
proof -
  from Update_steps [OF example_fresh(1), of "Some (u1Context ++ adminInput)" "[]" None]
  have n: "workflow_instance_nodes
             (afterFirstStatement ''u-1'' ''route'' (Some (u1Context ++ adminInput)) [] None
                exampleWorld)
           = workflow_instance_nodes exampleWorld @
               [newNodeRow ''u-1'' ''route'' (Some (u1Context ++ adminInput)) [] None exampleWorld]"
    and r: "workflow_instances
             (afterFirstStatement ''u-1'' ''route'' (Some (u1Context ++ adminInput)) [] None
                exampleWorld)
           = workflow_instances exampleWorld"
    by auto
  show ?thesis
    by (simp add: bothOrNeither_def n r newNodeRow_def example_ids exampleWorld_fields(1))
qed

subsection \<open>The initial context of a new instance\<close>

text \<open>
  Claim C9. Whenever \<^verbatim>\<open>CreateNewInstance\<close> succeeds, the context of the instance it returns
  has exactly one entry, \<open>instanceID\<close> bound to the generated UUID; the head row it stored
  points at the execution \<open>start_node-\<close>UUID and holds that context, and the execution row
  of the start node holds it too, so that snapshot is not the empty mapping.
\<close>

theorem CreateNewInstance_initial_context:
  assumes "CreateNewInstance newUUID workflowID w = (Inr instance, w')"
  shows "inst_Context instance = [''instanceID'' \<mapsto> VString newUUID] \<and>
         (\<exists>row. GetInstance newUUID w' = Inr row \<and>
            wi_current_node_instance_id row = ''start_node-'' @ newUUID \<and>
            wi_context row = Some [''instanceID'' \<mapsto> VString newUUID]) \<and>
         (\<exists>nodeRow. GetNodeInstance (''start_node-'' @ newUUID) w' = Inr nodeRow \<and>
            wn_node_id nodeRow = ''start_node'' \<and>
            wn_context nodeRow = Some [''instanceID'' \<mapsto> VString newUUID] \<and>
            wn_context nodeRow \<noteq> Some Map.empty)"
proof -
  from assms obtain wfDef where wf: "GetWorkflowDefinition workflowID w = Inr wfDef"
    by (auto simp: CreateNewInstance_def split: sum.splits)
  from assms wf obtain startNode where sn: "GetNodeByID wfDef ''start_node'' = Some startNode"
    by (auto simp: CreateNewInstance_def Let_def split: option.splits)
  have sid: "node_ID startNode = ''start_node''"
    using sn by (rule GetNodeByID_id)
  define ws where "ws = (case node_Signal startNode of
                          Some sg \<Rightarrow> (if sig_Catch sg \<noteq> [] then sig_Catch sg else [])
                        | None \<Rightarrow> [])"
  define c0 :: ctx where "c0 = [''instanceID'' \<mapsto> VString newUUID]"
  from assms wf sn obtain r w1 where
    save: "SaveNewInstance newUUID workflowID ''start_node'' (Some c0) ws None w = (Inr r, w1)"
    by (auto simp: CreateNewInstance_def Let_def sid ws_def c0_def split: prod.splits sum.splits)
  have fresh_i: "newUUID \<notin> wi_id ` set (workflow_instances w)"
    and fresh_n: "''start_node-'' @ newUUID \<notin> wn_id ` set (workflow_instance_nodes w)"
    using save by (auto simp: SaveNewInstance_cases split: if_splits)
  have w1: "workflow_instances w1 =
              map (\<lambda>r. if wi_id r = newUUID
                       then r\<lparr>wi_current_node_instance_id := ''start_node-'' @ newUUID\<rparr> else r)
                  (workflow_instances w @ [initialInstanceRow newUUID workflowID (Some c0) ws None w])"
    and n1: "workflow_instance_nodes w1 =
              workflow_instance_nodes w @ [initialNodeRow newUUID ''start_node'' (Some c0) ws None w]"
    using save fresh_i fresh_n by (auto simp: SaveNewInstance_cases)
  have tables: "workflow_instances w' = workflow_instances w1"
               "workflow_instance_nodes w' = workflow_instance_nodes w1"
    and ctx: "inst_Context instance = c0"
    using assms wf sn save
    by (auto simp: CreateNewInstance_def Let_def sid ws_def c0_def time_Now_def go_def
             split: prod.splits sum.splits if_splits)
  have f1: "find (\<lambda>r. wi_id r = newUUID)
              (workflow_instances w @ [initialInstanceRow newUUID workflowID (Some c0) ws None w])
            = Some (initialInstanceRow newUUID workflowID (Some c0) ws None w)"
  proof -
    have "\<forall>x \<in> set (workflow_instances w). \<not> wi_id x = newUUID"
      using fresh_i by force
    then show ?thesis
      by (subst find_append_none) (simp_all add: initialInstanceRow_def)
  qed
  have gi: "GetInstance newUUID w' =
              Inr ((initialInstanceRow newUUID workflowID (Some c0) ws None w)
                     \<lparr>wi_current_node_instance_id := ''start_node-'' @ newUUID\<rparr>)"
    by (simp add: GetInstance_def tables w1 find_map_same f1 initialInstanceRow_id
             del: map_append)
  have gn: "GetNodeInstance (''start_node-'' @ newUUID) w' =
              Inr (initialNodeRow newUUID ''start_node'' (Some c0) ws None w)"
  proof -
    have "\<forall>x \<in> set (workflow_instance_nodes w). \<not> wn_id x = ''start_node-'' @ newUUID"
      using fresh_n by force
    then have "find (\<lambda>r. wn_id r = ''start_node-'' @ newUUID)
                 (workflow_instance_nodes w @ [initialNodeRow newUUID ''start_node'' (Some c0) ws None w])
               = Some (initialNodeRow newUUID ''start_node'' (Some c0) ws None w)"
      by (subst find_append_none) (simp_all add: initialNodeRow_def)
    then show ?thesis
      by (simp add: GetNodeInstance_def tables n1)
  qed
  have ne: "Some c0 \<noteq> Some Map.empty"
  proof
    assume "Some c0 = Some Map.empty"
    then have "c0 ''instanceID'' = Map.empty ''instanceID''" by simp
    then show False by (simp add: c0_def)
  qed
  show ?thesis
    using ctx gi gn ne
    by (simp add: c0_def initialInstanceRow_def initialNodeRow_def)
qed

theorem CreateNewInstance_initial_context_witness:
  "(case CreateNewInstance ''u-9'' ''wf-1'' emptyWorld of
      (Inr created, w') \<Rightarrow>
        inst_Context created = [''instanceID'' \<mapsto> VString ''u-9''] \<and>
        (case GetNodeInstance ''start_node-u-9'' w' of
           Inr nodeRow \<Rightarrow> wn_context nodeRow = Some [''instanceID'' \<mapsto> VString ''u-9'']
         | Inl err \<Rightarrow> False)
    | (Inl err, w') \<Rightarrow> False)"
proof -
  have "\<exists>created w'. CreateNewInstance ''u-9'' ''wf-1'' emptyWorld = (Inr created, w')"
    by (simp add: CreateNewInstance_def GetWorkflowDefinition_def emptyWorld_def example_nodes
          SaveNewInstance_cases startNodeDef_def Let_def time_Now_def)
  then obtain created w' where
    run: "CreateNewInstance ''u-9'' ''wf-1'' emptyWorld = (Inr created, w')"
    by blast
  from CreateNewInstance_initial_context [OF run] show ?thesis
    by (auto simp: run)
qed

subsection \<open>The timeout goroutine\<close>

text \<open>
  Claim C4. \<open>timeoutExpired\<close> is the timeout goroutine from the moment its sleep ends, armed
  with the execution ID \<open>armed\<close>; it reads the instance again. Suppose that read succeeds
  and the row id that the advance generates is new. If the head still points at \<open>armed\<close>,
  the instance is moved: its head points at a new execution, waits for no signal and keeps
  its context, and the new execution row is at node \<open>timeout.next\<close> with that context. If
  the head points elsewhere, the state is left exactly as it was.
\<close>

theorem timeoutExpired_cookie:
  assumes load: "GetInstanceAndDefinition instID w = Inr cur"
      and fresh: "newNodeInstanceID (timeout_Next cfg) instID (tick w)
                    \<notin> wn_id ` set (workflow_instance_nodes w)"
  shows "(inst_CurrentNodeInstanceDBID cur = armed \<longrightarrow>
            (\<exists>row row' nodeRow.
               GetInstance instID w = Inr row \<and>
               GetInstance instID (timeoutExpired instID cfg node armed w) = Inr row' \<and>
               wi_current_node_instance_id row' = newNodeInstanceID (timeout_Next cfg) instID (tick w) \<and>
               wi_current_node_instance_id row' \<noteq> armed \<and>
               wi_waiting_signal row' = [] \<and>
               wi_context row' = wi_context row \<and>
               GetNodeInstance (wi_current_node_instance_id row')
                 (timeoutExpired instID cfg node armed w) = Inr nodeRow \<and>
               wn_workflow_instance_id nodeRow = instID \<and>
               wn_node_id nodeRow = timeout_Next cfg \<and>
               wn_waiting_signal nodeRow = [] \<and>
               wn_context nodeRow = wi_context row)) \<and>
         (inst_CurrentNodeInstanceDBID cur \<noteq> armed \<longrightarrow>
            timeoutExpired instID cfg node armed w = w)"
proof (intro conjI impI)
  assume ne: "inst_CurrentNodeInstanceDBID cur \<noteq> armed"
  then show "timeoutExpired instID cfg node armed w = w"
    by (simp add: timeoutExpired_def load)
next
  assume eq: "inst_CurrentNodeInstanceDBID cur = armed"
  let ?w' = "timeoutExpired instID cfg node armed w"
  let ?x = "newNodeInstanceID (timeout_Next cfg) instID (tick w)"
  let ?nr = "newNodeRow instID (timeout_Next cfg) (Some (inst_Context cur)) []
               (inst_ExpiresAt cur) (tick w)"
  have w': "?w' = snd (advanceInstance instID (timeout_Next cfg) None w)"
    using eq by (simp add: timeoutExpired_def load)
  from load_facts(2) [OF load] obtain row where
    row: "GetInstance instID w = Inr row"
    and cur: "inst_CurrentNodeInstanceDBID cur = wi_current_node_instance_id row"
    and ctx: "wi_context row = Some (inst_Context cur)"
    by blast
  have f: "find (\<lambda>r. wi_id r = instID) (workflow_instances w) = Some row"
    using row by (auto simp: GetInstance_def split: option.splits)
  then have rid: "wi_id row = instID"
    by (auto simp: find_Some_iff)
  have rows': "workflow_instances ?w' =
      map (advancedRow instID (timeout_Next cfg) (Some (inst_Context cur)) []
             (inst_ExpiresAt cur) (tick w)) (workflow_instances w)"
    and nodes': "workflow_instance_nodes ?w' = workflow_instance_nodes w @ [?nr]"
    unfolding w' using advanceInstance_fresh [OF load fresh] by simp_all
  have gi: "GetInstance instID ?w' =
      Inr (advancedRow instID (timeout_Next cfg) (Some (inst_Context cur)) []
             (inst_ExpiresAt cur) (tick w) row)"
    by (simp add: GetInstance_def rows' find_map_same f)
  have "\<forall>x \<in> set (workflow_instance_nodes w). \<not> wn_id x = ?x"
    using fresh by force
  then have "find (\<lambda>r. wn_id r = ?x) (workflow_instance_nodes w @ [?nr]) = Some ?nr"
    by (subst find_append_none) (simp_all add: newNodeRow_def)
  then have gn: "GetNodeInstance ?x ?w' = Inr ?nr"
    by (simp add: GetNodeInstance_def nodes')
  have moved: "?x \<noteq> armed"
    using load_facts(3) [OF load] fresh eq by auto
  show "\<exists>row row' nodeRow.
               GetInstance instID w = Inr row \<and>
               GetInstance instID ?w' = Inr row' \<and>
               wi_current_node_instance_id row' = ?x \<and>
               wi_current_node_instance_id row' \<noteq> armed \<and>
               wi_waiting_signal row' = [] \<and>
               wi_context row' = wi_context row \<and>
               GetNodeInstance (wi_current_node_instance_id row') ?w' = Inr nodeRow \<and>
               wn_workflow_instance_id nodeRow = instID \<and>
               wn_node_id nodeRow = timeout_Next cfg \<and>
               wn_waiting_signal nodeRow = [] \<and>
               wn_context nodeRow = wi_context row"
    using row gi gn moved rid ctx
    by (simp add: advancedRow_def newNodeRow_def)
qed

theorem timeoutExpired_cookie_witness:
  "GetInstanceAndDefinition ''u-1'' exampleWorld = Inr u1Loaded \<and>
   newNodeInstanceID (timeout_Next expiredTimeout) ''u-1'' (tick exampleWorld)
     \<notin> wn_id ` set (workflow_instance_nodes exampleWorld) \<and>
   inst_CurrentNodeInstanceDBID u1Loaded = ''approve-u-1-100'' \<and>
   (\<exists>row'. GetInstance ''u-1''
              (timeoutExpired ''u-1'' expiredTimeout ''approve'' ''approve-u-1-100'' exampleWorld)
            = Inr row' \<and>
          wi_current_node_instance_id row' = ''expired-u-1-1700000000000001000'' \<and>
          wi_waiting_signal row' = [] \<and>
          wi_context row' = Some u1Context) \<and>
   timeoutExpired ''u-1'' expiredTimeout ''approve'' ''approve-u-1-99'' exampleWorld = exampleWorld"
proof -
  note l = load_u1
  have f: "newNodeInstanceID (timeout_Next expiredTimeout) ''u-1'' (tick exampleWorld)
             \<notin> wn_id ` set (workflow_instance_nodes exampleWorld)"
    using example_fresh(2) by (simp add: expiredTimeout_def)
  have g: "GetInstance ''u-1'' exampleWorld = Inr (instanceRowAt ''u-1'' ''approve-u-1-100'' u1Context [])"
    by (simp add: GetInstance_def exampleWorld_fields)
  have c: "inst_CurrentNodeInstanceDBID u1Loaded = ''approve-u-1-100''"
    by (simp add: u1Loaded_def)
  have x: "newNodeInstanceID (timeout_Next expiredTimeout) ''u-1'' (tick exampleWorld)
             = ''expired-u-1-1700000000000001000''"
    by (simp add: expiredTimeout_def example_ids)
  have a: "\<exists>row'. GetInstance ''u-1''
              (timeoutExpired ''u-1'' expiredTimeout ''approve'' ''approve-u-1-100'' exampleWorld)
            = Inr row' \<and>
          wi_current_node_instance_id row' = ''expired-u-1-1700000000000001000'' \<and>
          wi_waiting_signal row' = [] \<and>
          wi_context row' = Some u1Context"
    using timeoutExpired_cookie [OF l f, of "''approve-u-1-100''" "''approve''"]
    by (auto simp: c g x)
  have b: "timeoutExpired ''u-1'' expiredTimeout ''approve'' ''approve-u-1-99'' exampleWorld
             = exampleWorld"
    using timeoutExpired_cookie [OF l f, of "''approve-u-1-99''" "''approve''"]
    by (simp add: c)
  from l f c a b show ?thesis by blast
qed

subsection \<open>The signal thrown by a gateway\<close>

text \<open>
  Claim C7, as the code has it. At a gateway whose matching branch throws a signal,
  \<^verbatim>\<open>ExecuteNextNode\<close> starts the goroutine that emits the signal first and calls
  \<^verbatim>\<open>advanceInstance\<close> after that: the run is \<^verbatim>\<open>advanceInstance\<close> from the state in which the
  goroutine has been started, and where the generated row id is new, the start of the
  goroutine stands in the history before the two statements that record the transition.
\<close>

theorem gateway_emit_started_before_advance:
  assumes "GetInstanceAndDefinition instanceID w = Inr inst"
    and "inst_CurrentNodeDef inst = Some nodeDef"
    and "node_Type nodeDef = ''gateway''"
    and "inst_WaitingSignal inst = []"
    and "inst_ExpiresAt inst = None"
    and "ResolveGatewayConditions pf fi inst = Inr (next, sg)"
    and "sg \<noteq> []"
  shows "ExecuteNextNode pf fi dec run instanceID w =
           advanceInstance instanceID next None
             (go (GoEmitSignal sg) (timeoutArmed instanceID inst nodeDef w)) \<and>
         (newNodeInstanceID next instanceID (tick w)
            \<notin> wn_id ` set (workflow_instance_nodes w) \<longrightarrow>
          (\<exists>rest. history (snd (ExecuteNextNode pf fi dec run instanceID w)) =
             history (timeoutArmed instanceID inst nodeDef w) @
               [Started (GoEmitSignal sg),
                Executed (InsertNode (newNodeRow instanceID next (Some (inst_Context inst)) []
                                        None (tick w))),
                Executed (headUpdate instanceID next (Some (inst_Context inst)) []
                            None (tick w))] @ rest))"
  using ExecuteNextNode_gateway [OF assms] ExecuteNextNode_gateway_history [OF assms]
  by blast

theorem gateway_emit_started_before_advance_witness:
  "GetInstanceAndDefinition ''u-3'' exampleWorld = Inr u3Loaded \<and>
   inst_CurrentNodeDef u3Loaded = Some routeNodeDef \<and>
   node_Type routeNodeDef = ''gateway'' \<and>
   inst_WaitingSignal u3Loaded = [] \<and>
   inst_ExpiresAt u3Loaded = None \<and>
   ResolveGatewayConditions exampleParseFloat exampleFloatOfInt u3Loaded
     = Inr (''done'', ''admin:entered'') \<and>
   ''admin:entered'' \<noteq> [] \<and>
   newNodeInstanceID ''done'' ''u-3'' (tick exampleWorld)
     \<notin> wn_id ` set (workflow_instance_nodes exampleWorld) \<and>
   ExecuteNextNode exampleParseFloat exampleFloatOfInt exampleDecodeString exampleRunString
       ''u-3'' exampleWorld =
     advanceInstance ''u-3'' ''done'' None (go (GoEmitSignal ''admin:entered'') exampleWorld) \<and>
   (\<exists>rest. history (snd (ExecuteNextNode exampleParseFloat exampleFloatOfInt
                           exampleDecodeString exampleRunString ''u-3'' exampleWorld)) =
      [Started (GoEmitSignal ''admin:entered''),
       Executed (InsertNode (newNodeRow ''u-3'' ''done'' (Some u3Context) [] None
                               (tick exampleWorld))),
       Executed (headUpdate ''u-3'' ''done'' (Some u3Context) [] None (tick exampleWorld))]
      @ rest)"
proof -
  have ne: "''admin:entered'' \<noteq> []" by simp
  have ta: "timeoutArmed ''u-3'' u3Loaded routeNodeDef exampleWorld = exampleWorld"
    by (simp add: timeoutArmed_def u3_facts)
  note T = gateway_emit_started_before_advance
         [OF load_u3 u3_facts(1) u3_facts(2) u3_facts(3) u3_facts(4) u3_resolve ne,
          of exampleDecodeString exampleRunString]
  have e1: "ExecuteNextNode exampleParseFloat exampleFloatOfInt exampleDecodeString
              exampleRunString ''u-3'' exampleWorld =
            advanceInstance ''u-3'' ''done'' None (go (GoEmitSignal ''admin:entered'') exampleWorld)"
    using T [THEN conjunct1] by (simp only: ta)
  have e2: "\<exists>rest. history (snd (ExecuteNextNode exampleParseFloat exampleFloatOfInt
                           exampleDecodeString exampleRunString ''u-3'' exampleWorld)) =
      [Started (GoEmitSignal ''admin:entered''),
       Executed (InsertNode (newNodeRow ''u-3'' ''done'' (Some u3Context) [] None
                               (tick exampleWorld))),
       Executed (headUpdate ''u-3'' ''done'' (Some u3Context) [] None (tick exampleWorld))]
      @ rest"
    using T [THEN conjunct2, THEN mp, OF example_fresh(4)]
    by (simp only: ta u3_facts(6) exampleWorld_fields(4) append_Nil)
  from e1 e2 load_u3 u3_facts u3_resolve ne example_fresh(4) show ?thesis by blast
qed

text \<open>
  In the example store instance \<open>u-3\<close> is at the gateway and its first branch matches and
  throws \<open>admin:entered\<close>: the goroutine that emits it is started when no head update has
  been committed.
\<close>

theorem gateway_emit_counterexample:
  "\<not> emitOnlyAfterCommit False
       (history (snd (ExecuteNextNode exampleParseFloat exampleFloatOfInt exampleDecodeString
                        exampleRunString ''u-3'' exampleWorld)))"
proof -
  have ne: "''admin:entered'' \<noteq> []" by simp
  from ExecuteNextNode_gateway_history
         [OF load_u3 u3_facts(1) u3_facts(2) u3_facts(3) u3_facts(4) u3_resolve ne
             example_fresh(4),
          of exampleDecodeString exampleRunString]
  obtain rest where
    "history (snd (ExecuteNextNode exampleParseFloat exampleFloatOfInt exampleDecodeString
                     exampleRunString ''u-3'' exampleWorld)) =
       history (timeoutArmed ''u-3'' u3Loaded routeNodeDef exampleWorld) @
         [Started (GoEmitSignal ''admin:entered''),
          Executed (InsertNode (newNodeRow ''u-3'' ''done'' (Some (inst_Context u3Loaded)) []
                                  None (tick exampleWorld))),
          Executed (headUpdate ''u-3'' ''done'' (Some (inst_Context u3Loaded)) []
                      None (tick exampleWorld))] @ rest"
    by blast
  then show ?thesis
    by (simp add: timeoutArmed_def u3_facts exampleWorld_fields)
qed

subsection \<open>Emitting a signal\<close>

















lemma initialInstanceRow_sel [simp]:
  "wi_waiting_signal (initialInstanceRow i wfid c s e w) = s"
  "wi_current_node_instance_id (initialInstanceRow i wfid c s e w) = []"
  by (simp_all add: initialInstanceRow_def)







end
